theory Spec2Isabelle
  imports Complex_Main
begin

section \<open>Exceptions of the Python code as values\<close>

text \<open>
  Every \<^verbatim>\<open>raise\<close> of the modelled functions is a constructor. The source's messages are
  Chinese text; each constructor is named after what its message says.
\<close>

datatype exn =
    EmptySequence             \<comment> \<open>ValueError of \<^verbatim>\<open>min()\<close>/\<^verbatim>\<open>max()\<close> on an empty sequence\<close>
  | KeyError
  | AttributeError            \<comment> \<open>\<^verbatim>\<open>.get\<close> on a value that is \<^verbatim>\<open>None\<close>\<close>
  | UnpackError               \<comment> \<open>\<^verbatim>\<open>for lon, lat in ...\<close> on a point that is not a pair\<close>
  | PoolNotInitialised        \<comment> \<open>services.get_db_connection: the pool was never created\<close>
  | InvalidGeometryData       \<comment> \<open>create_fence, update_fence: "invalid geometry data"\<close>
  | EmptyPolygonCoords        \<comment> \<open>convert_geojson_to_wkt: "polygon coordinates are empty"\<close>
  | UnsupportedGeometryType
  | NoFieldsToUpdate          \<comment> \<open>update_fence: "no field to update was supplied"\<close>
  | FenceMissingOrDeleted     \<comment> \<open>update_fence, delete_fence: "the fence does not exist or was deleted"\<close>
  | TooFewFences              \<comment> \<open>merge_fences: "at least 2 fences are needed"\<close>
  | MergeFailed
  | SplitLineNotLineString    \<comment> \<open>split_fence: "the split line must be a LineString"\<close>
  | SplitLineTooShort         \<comment> \<open>split_fence: "the split line has too few points"\<close>
  | SplitFailed
  | NotFeatureCollection
  | NoFeatures
  | StoreError string         \<comment> \<open>an exception raised by the database driver\<close>

section \<open>Layer zoom strategies (zoom\_strategy\_config.py, config.py)\<close>

text \<open>
  One entry of \<^verbatim>\<open>LAYER_ZOOM_STRATEGIES\<close>. The key \<^verbatim>\<open>always_load\<close> is present for the
  fence layer only and read with \<^verbatim>\<open>strategy.get('always_load')\<close>, so an absent key is
  \<open>False\<close>. \<^verbatim>\<open>limits\<close> is a dict from zoom threshold to feature limit, kept as an
  association list in the order of the literal. The \<^verbatim>\<open>description\<close> text is never read
  by the resolver and is left out.
\<close>

record layer_strategy =
  min_zoom :: int
  max_zoom :: int
  always_load :: bool
  limits :: "(int \<times> int) list"

definition LAYER_ZOOM_STRATEGIES :: "(string \<times> layer_strategy) list" where
  "LAYER_ZOOM_STRATEGIES =
    [(''fences'', \<lparr>min_zoom = 1, max_zoom = 20, always_load = True,
        limits = [(1, 1000), (10, 3000), (15, 5000)]\<rparr>),
     (''buildings'', \<lparr>min_zoom = 6, max_zoom = 20, always_load = False,
        limits = [(6, 5000), (10, 15000), (12, 30000), (15, 50000)]\<rparr>),
     (''land_polygons'', \<lparr>min_zoom = 4, max_zoom = 20, always_load = False,
        limits = [(4, 2000), (8, 5000), (10, 8000), (12, 6000), (14, 3000)]\<rparr>),
     (''roads'', \<lparr>min_zoom = 7, max_zoom = 20, always_load = False,
        limits = [(7, 3000), (9, 5000), (11, 10000), (13, 20000), (15, 30000)]\<rparr>),
     (''pois'', \<lparr>min_zoom = 9, max_zoom = 20, always_load = False,
        limits = [(9, 3000), (12, 5000), (16, 8000)]\<rparr>),
     (''water'', \<lparr>min_zoom = 8, max_zoom = 20, always_load = False,
        limits = [(8, 5000), (12, 8000), (16, 10000)]\<rparr>),
     (''railways'', \<lparr>min_zoom = 10, max_zoom = 20, always_load = False,
        limits = [(10, 3000), (14, 5000), (16, 8000)]\<rparr>),
     (''traffic'', \<lparr>min_zoom = 13, max_zoom = 20, always_load = False,
        limits = [(13, 3000), (16, 6000)]\<rparr>),
     (''worship'', \<lparr>min_zoom = 12, max_zoom = 20, always_load = False,
        limits = [(12, 5000), (16, 8000)]\<rparr>),
     (''landuse'', \<lparr>min_zoom = 10, max_zoom = 20, always_load = False,
        limits = [(10, 8000), (14, 15000), (16, 20000)]\<rparr>),
     (''transport'', \<lparr>min_zoom = 9, max_zoom = 20, always_load = False,
        limits = [(9, 1000), (12, 2000), (16, 3000)]\<rparr>),
     (''places'', \<lparr>min_zoom = 6, max_zoom = 20, always_load = False,
        limits = [(6, 500), (8, 1000), (12, 2000), (16, 3000)]\<rparr>),
     (''natural'', \<lparr>min_zoom = 8, max_zoom = 20, always_load = False,
        limits = [(8, 2000), (10, 3000), (14, 5000), (16, 8000)]\<rparr>)]"

text \<open>\<^verbatim>\<open>HIGH_ZOOM_STRATEGY['zoom_threshold']\<close>.\<close>

definition HIGH_ZOOM_THRESHOLD :: int where
  "HIGH_ZOOM_THRESHOLD = 16"

text \<open>
  The dict a strategy lookup returns. The keys \<^verbatim>\<open>max_features\<close>,
  \<^verbatim>\<open>simplify_tolerance\<close> and \<^verbatim>\<open>cache_ttl\<close> are absent from a result that does not load,
  hence the options. The tolerances of the source are the float literals 100.0, 20.0, 5.0,
  1.0 and the integer 0: whole numbers on which no arithmetic is done, kept as integers.
\<close>

record zoom_policy =
  load_data :: bool
  reason :: string
  max_features :: "int option"
  simplify_tolerance :: "int option"
  cache_ttl :: "int option"

definition no_load :: "string \<Rightarrow> zoom_policy" where
  "no_load why = \<lparr>load_data = False, reason = why, max_features = None,
     simplify_tolerance = None, cache_ttl = None\<rparr>"

text \<open>Python's \<^verbatim>\<open>str\<close> of an integer, for the f-string of the reason.\<close>

fun str_nat :: "nat \<Rightarrow> string" where
  "str_nat n =
     (if n < 10 then [''0123456789'' ! n]
      else str_nat (n div 10) @ [''0123456789'' ! (n mod 10)])"

declare str_nat.simps [simp del]

definition str_int :: "int \<Rightarrow> string" where
  "str_int i = (if i < 0 then CHR ''-'' # str_nat (nat (- i)) else str_nat (nat i))"

text \<open>Python's \<^verbatim>\<open>max\<close> and \<^verbatim>\<open>min\<close> of a sequence: they raise on an empty one.\<close>

fun py_max :: "int list \<Rightarrow> exn + int" where
  "py_max [] = Inl EmptySequence"
| "py_max (x # xs) = Inr (fold max xs x)"

fun py_min :: "int list \<Rightarrow> exn + int" where
  "py_min [] = Inl EmptySequence"
| "py_min (x # xs) = Inr (fold min xs x)"

text \<open>\<^verbatim>\<open>limits[target_zoom]\<close>: a missing key raises.\<close>

definition dict_get :: "('k \<times> 'v) list \<Rightarrow> 'k \<Rightarrow> exn + 'v" where
  "dict_get d k = (case map_of d k of None \<Rightarrow> Inl KeyError | Some v \<Rightarrow> Inr v)"

definition calc_simplify_tolerance :: "int \<Rightarrow> int" where
  "calc_simplify_tolerance zoom =
     (if zoom < 10 then 100
      else if zoom < 12 then 20
      else if zoom < 15 then 5
      else 1)"

definition calc_cache_ttl :: "int \<Rightarrow> int" where
  "calc_cache_ttl zoom = (let base_ttl = 600 in max 300 (base_ttl - zoom * 15))"

text \<open>
  The body of \<^verbatim>\<open>get_layer_zoom_strategy\<close> from
  \<^verbatim>\<open>strategy = LAYER_ZOOM_STRATEGIES[layer_name]\<close> on.
\<close>

definition strategy_policy :: "layer_strategy \<Rightarrow> int \<Rightarrow> exn + zoom_policy" where
  "strategy_policy strategy zoom =
     (if always_load strategy then
        (let available_zooms = filter (\<lambda>z. z \<le> zoom) (map fst (limits strategy)) in
         case (if available_zooms \<noteq> [] then py_max available_zooms
               else py_min (map fst (limits strategy))) of
           Inl e \<Rightarrow> Inl e
         | Inr target_zoom \<Rightarrow>
             (case dict_get (limits strategy) target_zoom of
                Inl e \<Rightarrow> Inl e
              | Inr limit \<Rightarrow>
                  Inr \<lparr>load_data = True, reason = ''always_load'',
                       max_features = Some limit, simplify_tolerance = Some 0,
                       cache_ttl = Some (calc_cache_ttl zoom)\<rparr>))
      else if zoom < min_zoom strategy then Inr (no_load ''zoom_too_low'')
      else if zoom \<ge> HIGH_ZOOM_THRESHOLD then
        (case (if limits strategy \<noteq> [] then py_max (map snd (limits strategy))
               else Inr 5000) of
           Inl e \<Rightarrow> Inl e
         | Inr most \<Rightarrow>
             Inr \<lparr>load_data = True, reason = ''high_zoom_all_layers'',
                  max_features = Some most, simplify_tolerance = Some 0,
                  cache_ttl = Some (calc_cache_ttl zoom)\<rparr>)
      else
        (let zoom_levels = sort (filter (\<lambda>z. z \<le> zoom) (map fst (limits strategy))) in
         if zoom_levels = [] then Inr (no_load ''no_suitable_zoom'')
         else
           (case py_max zoom_levels of
              Inl e \<Rightarrow> Inl e
            | Inr target_zoom \<Rightarrow>
                (case dict_get (limits strategy) target_zoom of
                   Inl e \<Rightarrow> Inl e
                 | Inr limit \<Rightarrow>
                     Inr \<lparr>load_data = True,
                          reason = ''zoom_'' @ str_int target_zoom @ ''_strategy'',
                          max_features = Some limit,
                          simplify_tolerance = Some (calc_simplify_tolerance zoom),
                          cache_ttl = Some (calc_cache_ttl zoom)\<rparr>))))"

definition get_layer_zoom_strategy :: "string \<Rightarrow> int \<Rightarrow> exn + zoom_policy" where
  "get_layer_zoom_strategy layer_name zoom =
     (case map_of LAYER_ZOOM_STRATEGIES layer_name of
        None \<Rightarrow> Inr (no_load ''layer_not_configured'')
      | Some strategy \<Rightarrow> strategy_policy strategy zoom)"

subsection \<open>The resolver as the specification words it\<close>

text \<open>
  The greatest configured threshold not exceeding the zoom, if there is one; the smallest
  configured threshold; the limit configured for a threshold; the greatest configured limit.
\<close>

definition thresholds_upto :: "(int \<times> int) list \<Rightarrow> int \<Rightarrow> int set" where
  "thresholds_upto lims zoom = {t \<in> fst ` set lims. t \<le> zoom}"

definition greatest_threshold :: "(int \<times> int) list \<Rightarrow> int \<Rightarrow> int option" where
  "greatest_threshold lims zoom =
     (if thresholds_upto lims zoom = {} then None else Some (Max (thresholds_upto lims zoom)))"

definition smallest_threshold :: "(int \<times> int) list \<Rightarrow> int" where
  "smallest_threshold lims = Min (fst ` set lims)"

definition spec_ttl :: "int \<Rightarrow> int" where
  "spec_ttl zoom = max 300 (600 - 15 * zoom)"

definition spec_tolerance :: "int \<Rightarrow> int" where
  "spec_tolerance zoom = (if zoom < 10 then 100 else if zoom < 12 then 20
     else if zoom < 15 then 5 else 1)"

text \<open>
  Steps 2 to 5 of the specification's \<open>resolve\<close>, as a check of a returned policy. The
  specification names no TTL for step 4 and no reason for a policy that loads, so the check
  leaves them free there.
\<close>

definition prescribed_for :: "layer_strategy \<Rightarrow> int \<Rightarrow> zoom_policy \<Rightarrow> bool" where
  "prescribed_for s zoom p =
     (if always_load s then
        load_data p
        \<and> max_features p = map_of (limits s)
             (case greatest_threshold (limits s) zoom of
                Some t \<Rightarrow> t | None \<Rightarrow> smallest_threshold (limits s))
        \<and> simplify_tolerance p = Some 0
        \<and> cache_ttl p = Some (spec_ttl zoom)
      else if zoom < min_zoom s then \<not> load_data p \<and> reason p = ''zoom_too_low''
      else if zoom \<ge> 16 then
        load_data p
        \<and> max_features p = Some (Max (snd ` set (limits s)))
        \<and> simplify_tolerance p = Some 0
      else
        (case greatest_threshold (limits s) zoom of
           None \<Rightarrow> \<not> load_data p
         | Some t \<Rightarrow>
             load_data p
             \<and> max_features p = map_of (limits s) t
             \<and> simplify_tolerance p = Some (spec_tolerance zoom)
             \<and> cache_ttl p = Some (spec_ttl zoom)))"

text \<open>
  Step 1 and the dispatch. The specification's reason \<open>not_configured\<close> is the source's
  string \<^verbatim>\<open>layer_not_configured\<close>.
\<close>

definition prescribed :: "string \<Rightarrow> int \<Rightarrow> zoom_policy \<Rightarrow> bool" where
  "prescribed layer zoom p =
     (case map_of LAYER_ZOOM_STRATEGIES layer of
        None \<Rightarrow> \<not> load_data p \<and> reason p = ''layer_not_configured''
      | Some s \<Rightarrow> prescribed_for s zoom p)"

text \<open>
  Whether a limits table never lowers the limit as the threshold grows.
\<close>

definition monotone_limits :: "(int \<times> int) list \<Rightarrow> bool" where
  "monotone_limits lims =
     list_all (\<lambda>(t1, l1). list_all (\<lambda>(t2, l2). t1 \<le> t2 \<longrightarrow> l1 \<le> l2) lims) lims"

section \<open>The fence store, the caches and their environment (fence\_services.py, services.py)\<close>

subsection \<open>Values handed in by callers\<close>

text \<open>
  Coordinates and areas are Python floats; they are kept as rationals, and only compared,
  never computed with. A dict of tags or of configuration is an association list. A GeoJSON
  geometry is a dict read with \<^verbatim>\<open>.get\<close>, so both keys may be absent. A geometry argument
  is a string (well-known text), a dict, or some other Python value.
\<close>

type_synonym point = "rat list"
type_synonym ring = "point list"
type_synonym pydict = "(string \<times> string) list"

record geojson_geometry =
  g_type :: "string option"
  g_coordinates :: "ring list option"

datatype geometry_data = Wkt string | GeoJson geojson_geometry | NotGeometry

subsection \<open>Tables\<close>

text \<open>
  The columns of \<^verbatim>\<open>electronic_fences\<close> that the statements of fence\_services.py write,
  filter on or return, and the columns of \<^verbatim>\<open>fence_overlaps\<close> written by the upsert of
  \<^verbatim>\<open>detect_fence_overlaps\<close>. Timestamps are seconds on the clock of the world below.
\<close>

record fence_attrs =
  fence_type :: string
  fence_purpose :: "string option"
  fence_description :: "string option"
  fence_color :: string
  fence_opacity :: rat
  group_id :: "int option"
  owner_id :: "int option"
  creator_id :: "int option"
  fence_tags :: "pydict option"
  fence_config :: "pydict option"

record fence_row =
  row_id :: int
  fence_name :: string
  fence_geometry :: string
  fence_status :: string
  fence_area :: "rat option"
  attrs :: fence_attrs
  updated_at :: "rat option"
  deleted_at :: "rat option"

record overlap_row =
  fence_id_1 :: int
  fence_id_2 :: int
  overlap_area :: rat
  overlap_percentage_1 :: rat
  overlap_percentage_2 :: rat
  overlap_type :: string
  detected_at :: rat

record store =
  electronic_fences :: "fence_row list"
  fence_overlaps :: "overlap_row list"
  next_fence_id :: int

text \<open>A row of the result set of the stored function \<^verbatim>\<open>detect_fence_overlaps($1)\<close>.\<close>

record overlap_hit =
  overlapping_fence_id :: int
  hit_area :: rat
  hit_percentage :: rat
  hit_type :: string

text \<open>
  The dict \<^verbatim>\<open>detect_fence_overlaps\<close> returns per overlap: the hit, and under
  \<^verbatim>\<open>overlap_fence_info\<close> the name, type, purpose and colour of the other fence when a row
  with its id exists.
\<close>

record overlap_info =
  hit :: overlap_hit
  overlap_fence_info :: "(string \<times> string \<times> string option \<times> string) option"

subsection \<open>What the repository's files do not hold\<close>

text \<open>
  The geometry library (shapely, pyproj), Python's formatting of a float, and the database
  side (the stored functions \<^verbatim>\<open>detect_fence_overlaps\<close>, \<^verbatim>\<open>merge_fences\<close> and
  \<^verbatim>\<open>split_fence\<close>, the derived area column, and whatever row constraint the table
  \<^verbatim>\<open>fence_overlaps\<close> carries besides the unique key named by the upsert) are parameters.
  An option result is \<open>None\<close> and a sum result is \<open>Inl\<close> where the call raises. Each of
  the three stored functions may write, so each returns the store it leaves with its
  answer; one that raises leaves the store as it was.
\<close>

record 'g env =
  shapely_wkt_loads :: "string \<Rightarrow> 'g option"
  shapely_polygon :: "ring \<Rightarrow> ring list option \<Rightarrow> 'g option"
  shapely_is_valid :: "'g \<Rightarrow> bool"
  shapely_make_valid :: "'g \<Rightarrow> 'g option"
  shapely_area :: "'g \<Rightarrow> rat"
  pyproj_transform :: "'g \<Rightarrow> 'g option"
  float_str :: "rat \<Rightarrow> string"
  store_area :: "string \<Rightarrow> rat option"
  overlap_row_allowed :: "int \<Rightarrow> int \<Rightarrow> bool"
  detect_overlaps_sql :: "store \<Rightarrow> int \<Rightarrow> exn + (overlap_hit list \<times> store)"
  merge_fences_sql ::
    "store \<Rightarrow> int list \<Rightarrow> string \<Rightarrow> int option \<Rightarrow> exn + (int option \<times> store)"
  split_fence_sql ::
    "store \<Rightarrow> int \<Rightarrow> string \<Rightarrow> int option \<Rightarrow> exn + (int list option \<times> store)"

subsection \<open>Process state\<close>

text \<open>
  The globals of services.py (\<^verbatim>\<open>db_pool\<close>, \<^verbatim>\<open>memory_cache\<close>, \<^verbatim>\<open>redis_client\<close>,
  \<^verbatim>\<open>cache_stats\<close>), the database and the clock. \<^verbatim>\<open>memory_cache\<close> maps a key to
  (insertion time, value); the shared tier maps a key to (expiry time, text) and is \<open>None\<close>
  when \<^verbatim>\<open>redis_client\<close> is \<^verbatim>\<open>None\<close>. A cached value is an opaque Python value, written
  as a string. A text of the shared tier is either the JSON text of a value, as
  \<^verbatim>\<open>json.dumps\<close> writes it and \<^verbatim>\<open>json.loads\<close> reads it back, or some other text, on
  which \<^verbatim>\<open>json.loads\<close> raises. With the default
  configuration the read pools address the same database as the write pool, so one store
  stands for all of them. Log lines are not part of the state.
\<close>

record cache_stats =
  hits :: nat
  misses :: nat
  redis_hits :: nat
  redis_misses :: nat

datatype shared_text = JsonText string | RawText string

record world =
  db_pool_ready :: bool
  db :: store
  memory_cache :: "(string \<times> rat \<times> string) list"
  redis_client :: "(string \<times> rat \<times> shared_text) list option"
  stats :: cache_stats
  now :: rat

subsection \<open>Dicts\<close>

definition dict_set :: "'k \<Rightarrow> 'v \<Rightarrow> ('k \<times> 'v) list \<Rightarrow> ('k \<times> 'v) list" where
  "dict_set k v d =
     (if map_of d k = None then d @ [(k, v)]
      else map (\<lambda>(k', v'). if k' = k then (k, v) else (k', v')) d)"

definition dict_del :: "'k \<Rightarrow> ('k \<times> 'v) list \<Rightarrow> ('k \<times> 'v) list" where
  "dict_del k d = filter (\<lambda>(k', v'). k' \<noteq> k) d"

subsection \<open>The two cache tiers (services.py)\<close>

text \<open>\<^verbatim>\<open>CACHE_CONFIG['memory_cache']\<close>.\<close>

definition memory_cache_max_size :: nat where
  "memory_cache_max_size = 1000"

definition memory_cache_ttl :: rat where
  "memory_cache_ttl = 300"

text \<open>\<^verbatim>\<open>redis_client.get\<close>: an entry past its expiry is gone.\<close>

definition redis_get ::
  "(string \<times> rat \<times> shared_text) list \<Rightarrow> rat \<Rightarrow> string \<Rightarrow> shared_text option" where
  "redis_get r t key =
     (case map_of r key of
        None \<Rightarrow> None
      | Some (expiry, text) \<Rightarrow> if t < expiry then Some text else None)"

text \<open>\<^verbatim>\<open>if redis_value:\<close> is false for the empty text only.\<close>

definition text_truthy :: "shared_text \<Rightarrow> bool" where
  "text_truthy text = (case text of JsonText value \<Rightarrow> True | RawText s \<Rightarrow> s \<noteq> [])"

text \<open>
  \<^verbatim>\<open>get_cache_value\<close>. A text of the shared tier counts as a hit of that tier before
  \<^verbatim>\<open>json.loads\<close> runs; when \<^verbatim>\<open>json.loads\<close> raises, the exception is logged and the call
  ends as a miss.
\<close>

definition get_cache_value :: "string \<Rightarrow> world \<Rightarrow> string option \<times> world" where
  "get_cache_value key w =
     (let fresh = (case map_of (memory_cache w) key of
                     None \<Rightarrow> None
                   | Some (timestamp, value) \<Rightarrow>
                       if now w - timestamp < memory_cache_ttl then Some value else None);
          w1 = (if map_of (memory_cache w) key \<noteq> None \<and> fresh = None
                then w\<lparr>memory_cache := dict_del key (memory_cache w)\<rparr> else w)
      in case fresh of
           Some value \<Rightarrow> (Some value, w\<lparr>stats := (stats w)\<lparr>hits := hits (stats w) + 1\<rparr>\<rparr>)
         | None \<Rightarrow>
             (case (case redis_client w1 of
                      None \<Rightarrow> None
                    | Some r \<Rightarrow> Some (redis_get r (now w1) key)) of
                Some (Some redis_value) \<Rightarrow>
                  if text_truthy redis_value then
                    (case redis_value of
                       JsonText value \<Rightarrow>
                         (Some value,
                          (if length (memory_cache w1) < memory_cache_max_size
                           then w1\<lparr>memory_cache := dict_set key (now w1, value) (memory_cache w1)\<rparr>
                           else w1)\<lparr>stats := (stats w1)\<lparr>redis_hits := redis_hits (stats w1) + 1\<rparr>\<rparr>)
                     | RawText s \<Rightarrow>
                         (None, w1\<lparr>stats := (stats w1)\<lparr>redis_hits := redis_hits (stats w1) + 1,
                                                        misses := misses (stats w1) + 1\<rparr>\<rparr>))
                  else
                    (None, w1\<lparr>stats := (stats w1)\<lparr>redis_misses := redis_misses (stats w1) + 1,
                                                   misses := misses (stats w1) + 1\<rparr>\<rparr>)
              | Some None \<Rightarrow>
                  (None, w1\<lparr>stats := (stats w1)\<lparr>redis_misses := redis_misses (stats w1) + 1,
                                                 misses := misses (stats w1) + 1\<rparr>\<rparr>)
              | None \<Rightarrow> (None, w1\<lparr>stats := (stats w1)\<lparr>misses := misses (stats w1) + 1\<rparr>\<rparr>)))"

text \<open>
  \<^verbatim>\<open>set_cache_value\<close>, with the shared tier's TTL of the resource kind and the size
  ceiling \<^verbatim>\<open>max_geojson_size\<close> of 10 MiB on the encoded value; the length of the string
  that stands for the value is taken as the size of its JSON text.
\<close>

definition max_geojson_size :: nat where
  "max_geojson_size = 10 * 1024 * 1024"

definition set_cache_value :: "string \<Rightarrow> string \<Rightarrow> rat \<Rightarrow> world \<Rightarrow> world" where
  "set_cache_value key value ttl w =
     (let w1 = (if length (memory_cache w) < memory_cache_max_size
                then w\<lparr>memory_cache := dict_set key (now w, value) (memory_cache w)\<rparr> else w)
      in case redis_client w1 of
           None \<Rightarrow> w1
         | Some r \<Rightarrow>
             if length value \<le> max_geojson_size
             then w1\<lparr>redis_client := Some (dict_set key (now w1 + ttl, JsonText value) r)\<rparr>
             else w1)"

text \<open>
  \<^verbatim>\<open>services.clear_cache\<close>: empties the local tier, schedules \<^verbatim>\<open>flushdb\<close> on the shared
  tier (taken as done) and resets the counters.
\<close>

definition clear_cache :: "world \<Rightarrow> world" where
  "clear_cache w =
     w\<lparr>memory_cache := [],
       redis_client := (case redis_client w of None \<Rightarrow> None | Some r \<Rightarrow> Some []),
       stats := \<lparr>hits = 0, misses = 0, redis_hits = 0, redis_misses = 0\<rparr>\<rparr>"

text \<open>
  \<^verbatim>\<open>fence_services.clear_fence_cache\<close>: its body is one \<^verbatim>\<open>logger.info\<close> call inside a
  \<^verbatim>\<open>try\<close>; it touches no global.
\<close>

definition clear_fence_cache :: "world \<Rightarrow> world" where
  "clear_fence_cache w = w"

text \<open>\<^verbatim>\<open>services.get_db_connection\<close>: raises unless the pool was created at startup.\<close>

definition get_db_connection :: "world \<Rightarrow> exn + unit" where
  "get_db_connection w = (if \<not> db_pool_ready w then Inl PoolNotInitialised else Inr ())"

subsection \<open>Geometry helpers (fence\_services.py)\<close>

text \<open>
  The float literal \<^verbatim>\<open>0.00000001\<close> of \<^verbatim>\<open>validate_geometry\<close>: the double nearest to it is
  3022314549036573 / 2^78, a little above 1 / 10^8. Areas are doubles too, so the
  comparison of the source is a comparison of these rationals.
\<close>

definition MIN_AREA_SQUARE_DEGREES :: rat where
  "MIN_AREA_SQUARE_DEGREES = 3022314549036573 / 2 ^ 78"


text \<open>
  The tail of \<^verbatim>\<open>validate_geometry\<close>: one repair attempt on an invalid geometry, then the
  area test of the geometry as it is (in square degrees) against the literal.
\<close>

definition geometry_acceptable :: "'g env \<Rightarrow> 'g \<Rightarrow> bool" where
  "geometry_acceptable env geom =
     (case (if \<not> shapely_is_valid env geom then shapely_make_valid env geom else Some geom) of
        None \<Rightarrow> False
      | Some geom' \<Rightarrow> shapely_area env geom' > MIN_AREA_SQUARE_DEGREES)"

definition validate_geometry :: "'g env \<Rightarrow> geometry_data \<Rightarrow> bool" where
  "validate_geometry env geometry_data =
     (case geometry_data of
        Wkt s \<Rightarrow>
          (case shapely_wkt_loads env s of
             None \<Rightarrow> False
           | Some geom \<Rightarrow> geometry_acceptable env geom)
      | GeoJson d \<Rightarrow>
          if g_type d = Some ''Polygon'' then
            (case (case g_coordinates d of None \<Rightarrow> [] | Some c \<Rightarrow> c) of
               [] \<Rightarrow> False
             | shell # holes \<Rightarrow>
                 (case shapely_polygon env shell (if holes \<noteq> [] then Some holes else None) of
                    None \<Rightarrow> False
                  | Some geom \<Rightarrow> geometry_acceptable env geom))
          else False
      | NotGeometry \<Rightarrow> False)"

text \<open>\<^verbatim>\<open>','.join\<close>, and a list comprehension whose element expression may raise.\<close>

fun join :: "string \<Rightarrow> string list \<Rightarrow> string" where
  "join sep [] = []"
| "join sep [x] = x"
| "join sep (x # y # ys) = x @ sep @ join sep (y # ys)"

fun collect :: "(exn + 'a) list \<Rightarrow> exn + 'a list" where
  "collect [] = Inr []"
| "collect (Inl e # rest) = Inl e"
| "collect (Inr x # rest) = (case collect rest of Inl e \<Rightarrow> Inl e | Inr xs \<Rightarrow> Inr (x # xs))"

text \<open>\<^verbatim>\<open>','.join([f"{lon} {lat}" for lon, lat in ring])\<close>.\<close>

fun point_wkt :: "'g env \<Rightarrow> point \<Rightarrow> exn + string" where
  "point_wkt env [lon, lat] = Inr (float_str env lon @ '' '' @ float_str env lat)"
| "point_wkt env p = Inl UnpackError"

definition ring_wkt :: "'g env \<Rightarrow> ring \<Rightarrow> exn + string" where
  "ring_wkt env ring =
     (case collect (map (point_wkt env) ring) of
        Inl e \<Rightarrow> Inl e
      | Inr ps \<Rightarrow> Inr (join '','' ps))"

definition convert_geojson_to_wkt :: "'g env \<Rightarrow> geojson_geometry \<Rightarrow> exn + string" where
  "convert_geojson_to_wkt env geojson_geometry =
     (if g_type geojson_geometry = Some ''Polygon'' then
        (case (case g_coordinates geojson_geometry of None \<Rightarrow> [] | Some c \<Rightarrow> c) of
           [] \<Rightarrow> Inl EmptyPolygonCoords
         | exterior # holes \<Rightarrow>
             (case ring_wkt env exterior of
                Inl e \<Rightarrow> Inl e
              | Inr exterior_wkt \<Rightarrow>
                  (case collect (map (ring_wkt env) holes) of
                     Inl e \<Rightarrow> Inl e
                   | Inr hs \<Rightarrow>
                       (let holes_wkt = map (\<lambda>hole_wkt. ''('' @ hole_wkt @ '')'') hs in
                        if holes_wkt \<noteq> []
                        then Inr (''POLYGON(('' @ exterior_wkt @ ''),'' @ join '','' holes_wkt @ '')'')
                        else Inr (''POLYGON(('' @ exterior_wkt @ ''))'')))))
      else Inl UnsupportedGeometryType)"

text \<open>
  The conversion both \<^verbatim>\<open>create_fence\<close> and \<^verbatim>\<open>update_fence\<close> run on a validated
  geometry: a dict goes through \<^verbatim>\<open>convert_geojson_to_wkt\<close>, anything else is used as it
  is. Validation has refused every value that is neither a string nor a dict.
\<close>

definition wkt_of_geometry :: "'g env \<Rightarrow> geometry_data \<Rightarrow> exn + string" where
  "wkt_of_geometry env geometry_arg =
     (case geometry_arg of
        GeoJson d \<Rightarrow> convert_geojson_to_wkt env d
      | Wkt s \<Rightarrow> Inr s
      | NotGeometry \<Rightarrow> Inl InvalidGeometryData)"

text \<open>\<^verbatim>\<open>calculate_fence_area\<close>: 0.0 when parsing or projecting raises.\<close>

definition calculate_fence_area :: "'g env \<Rightarrow> string \<Rightarrow> rat" where
  "calculate_fence_area env wkt_geometry =
     (case shapely_wkt_loads env wkt_geometry of
        None \<Rightarrow> 0
      | Some geom \<Rightarrow>
          (case pyproj_transform env geom of
             None \<Rightarrow> 0
           | Some projected_geom \<Rightarrow> shapely_area env projected_geom))"

subsection \<open>Overlap detection\<close>

text \<open>\<^verbatim>\<open>SELECT fence_name, fence_type, fence_purpose, fence_color ... WHERE id = $1\<close>.\<close>

definition fence_info :: "store \<Rightarrow> int \<Rightarrow> (string \<times> string \<times> string option \<times> string) option" where
  "fence_info s i =
     (case filter (\<lambda>r. row_id r = i) (electronic_fences s) of
        [] \<Rightarrow> None
      | r # rest \<Rightarrow>
          Some (fence_name r, fence_type (attrs r), fence_purpose (attrs r), fence_color (attrs r)))"

text \<open>
  \<^verbatim>\<open>INSERT INTO fence_overlaps ... ON CONFLICT (fence_id_1, fence_id_2) DO UPDATE SET ...\<close>:
  the conflict target is the ordered pair of the two id columns.
\<close>

definition same_pair :: "overlap_row \<Rightarrow> overlap_row \<Rightarrow> bool" where
  "same_pair a b = (fence_id_1 a = fence_id_1 b \<and> fence_id_2 a = fence_id_2 b)"

definition upsert_overlap :: "overlap_row \<Rightarrow> overlap_row list \<Rightarrow> overlap_row list" where
  "upsert_overlap new rows =
     (if list_ex (same_pair new) rows
      then map (\<lambda>r. if same_pair new r
                     then r\<lparr>overlap_area := overlap_area new,
                            overlap_percentage_1 := overlap_percentage_1 new,
                            overlap_percentage_2 := overlap_percentage_2 new,
                            overlap_type := overlap_type new,
                            detected_at := detected_at new\<rparr>
                     else r) rows
      else rows @ [new])"

text \<open>
  The row one upsert statement carries: the detecting fence as \<^verbatim>\<open>fence_id_1\<close>, the
  overlapping fence as \<^verbatim>\<open>fence_id_2\<close>, the constant 0 as \<^verbatim>\<open>overlap_percentage_2\<close>,
  and \<^verbatim>\<open>CURRENT_TIMESTAMP\<close> as \<^verbatim>\<open>detected_at\<close>.
\<close>

definition overlap_row_of :: "int \<Rightarrow> rat \<Rightarrow> overlap_hit \<Rightarrow> overlap_row" where
  "overlap_row_of fence_id t h =
     \<lparr>fence_id_1 = fence_id,
      fence_id_2 = overlapping_fence_id h,
      overlap_area = hit_area h,
      overlap_percentage_1 = hit_percentage h,
      overlap_percentage_2 = 0,
      overlap_type = hit_type h,
      detected_at = t\<rparr>"

text \<open>
  The loop over \<^verbatim>\<open>overlaps_list\<close> that runs the upsert. Each statement commits on its
  own, so a statement the table rejects ends the loop with the earlier rows written.
\<close>

fun upsert_overlaps ::
  "'g env \<Rightarrow> int \<Rightarrow> rat \<Rightarrow> overlap_info list \<Rightarrow> store \<Rightarrow> exn option \<times> store" where
  "upsert_overlaps env fence_id t [] s = (None, s)"
| "upsert_overlaps env fence_id t (overlap # rest) s =
     (if \<not> overlap_row_allowed env fence_id (overlapping_fence_id (hit overlap))
      then (Some (StoreError ''fence_overlaps''), s)
      else upsert_overlaps env fence_id t rest
             (s\<lparr>fence_overlaps :=
                  upsert_overlap (overlap_row_of fence_id t (hit overlap))
                    (fence_overlaps s)\<rparr>))"

text \<open>The \<^verbatim>\<open>try\<close> block of \<^verbatim>\<open>detect_fence_overlaps\<close>, with the store it leaves.\<close>

definition detect_attempt :: "'g env \<Rightarrow> int \<Rightarrow> world \<Rightarrow> (exn + overlap_info list) \<times> world" where
  "detect_attempt env fence_id w =
     (case get_db_connection w of
        Inl e \<Rightarrow> (Inl e, w)
      | Inr u \<Rightarrow>
          (case detect_overlaps_sql env (db w) fence_id of
             Inl e \<Rightarrow> (Inl e, w)
           | Inr (overlaps, s0) \<Rightarrow>
               (let overlaps_list =
                      map (\<lambda>overlap. \<lparr>hit = overlap,
                             overlap_fence_info =
                               fence_info s0 (overlapping_fence_id overlap)\<rparr>) overlaps
                in case upsert_overlaps env fence_id (now w) overlaps_list s0 of
                     (Some e, s) \<Rightarrow> (Inl e, w\<lparr>db := s\<rparr>)
                   | (None, s) \<Rightarrow> (Inr overlaps_list, w\<lparr>db := s\<rparr>))))"

text \<open>\<^verbatim>\<open>detect_fence_overlaps\<close>: \<^verbatim>\<open>except Exception: return []\<close>.\<close>

definition detect_fence_overlaps :: "'g env \<Rightarrow> int \<Rightarrow> world \<Rightarrow> overlap_info list \<times> world" where
  "detect_fence_overlaps env fence_id w =
     (case detect_attempt env fence_id w of
        (Inl e, w') \<Rightarrow> ([], w')
      | (Inr overlaps_list, w') \<Rightarrow> (overlaps_list, w'))"

subsection \<open>Create, update, delete\<close>

text \<open>
  What a successful create or update returns (the \<^verbatim>\<open>success\<close> flag is the \<open>Inr\<close>, a
  failure dict is the \<open>Inl\<close> with its error).
\<close>

record fence_report =
  rep_fence_id :: int
  rep_fence_name :: string
  rep_fence_area :: "rat option"
  overlaps_detected :: bool
  overlaps_count :: nat

text \<open>\<^verbatim>\<open>json.dumps(d) if d else None\<close>.\<close>

definition dumps_if_any :: "pydict option \<Rightarrow> pydict option" where
  "dumps_if_any d = (case d of None \<Rightarrow> None | Some [] \<Rightarrow> None | Some (kv # rest) \<Rightarrow> d)"

text \<open>
  \<^verbatim>\<open>calculate_fence_bounds\<close> is called by \<^verbatim>\<open>create_fence\<close> too; it cannot raise and its
  result is not used, so it is left out.
\<close>

text \<open>
  Modelled from the spec: the table definition of \<^verbatim>\<open>electronic_fences\<close> is not among the
  files. A new fence is active (the lifecycle nonexistent, active, deleted), its id comes
  from a sequence, and its area is derived by the store.
\<close>

definition insert_fence ::
  "'g env \<Rightarrow> string \<Rightarrow> string \<Rightarrow> fence_attrs \<Rightarrow> store \<Rightarrow> int \<times> store" where
  "insert_fence env name wkt_geometry a s =
     (next_fence_id s,
      s\<lparr>electronic_fences := electronic_fences s @
           [\<lparr>row_id = next_fence_id s, fence_name = name, fence_geometry = wkt_geometry,
             fence_status = ''active'', fence_area = store_area env wkt_geometry, attrs = a,
             updated_at = None, deleted_at = None\<rparr>],
        next_fence_id := next_fence_id s + 1\<rparr>)"

definition create_fence ::
  "'g env \<Rightarrow> string \<Rightarrow> geometry_data \<Rightarrow> fence_attrs \<Rightarrow> world
     \<Rightarrow> (exn + fence_report) \<times> world" where
  "create_fence env name geometry_arg a w =
     (if \<not> validate_geometry env geometry_arg then (Inl InvalidGeometryData, w)
      else
        case wkt_of_geometry env geometry_arg of
          Inl e \<Rightarrow> (Inl e, w)
        | Inr wkt_geometry \<Rightarrow>
            (let area = calculate_fence_area env wkt_geometry in
             case get_db_connection w of
               Inl e \<Rightarrow> (Inl e, w)
             | Inr u \<Rightarrow>
                 (case insert_fence env name wkt_geometry
                         (a\<lparr>fence_tags := dumps_if_any (fence_tags a),
                            fence_config := dumps_if_any (fence_config a)\<rparr>) (db w) of
                    (fence_id, s) \<Rightarrow>
                      (case detect_fence_overlaps env fence_id (w\<lparr>db := s\<rparr>) of
                         (overlaps, w') \<Rightarrow>
                           (Inr \<lparr>rep_fence_id = fence_id, rep_fence_name = name,
                                 rep_fence_area = Some area,
                                 overlaps_detected = (length overlaps > 0),
                                 overlaps_count = length overlaps\<rparr>,
                            clear_fence_cache w')))))"

text \<open>
  The optional arguments of \<^verbatim>\<open>update_fence\<close>, and the assignments its \<^verbatim>\<open>SET\<close> clause is
  built from, in the order the source appends them.
\<close>

record fence_update =
  new_name :: "string option"
  new_geometry :: "geometry_data option"
  new_purpose :: "string option"
  new_description :: "string option"
  new_color :: "string option"
  new_opacity :: "rat option"
  new_tags :: "pydict option"
  new_config :: "pydict option"

datatype assignment =
    SetName string | SetGeometry string | SetPurpose string | SetDescription string
  | SetColor string | SetOpacity rat | SetTags pydict | SetConfig pydict | SetUpdatedAt rat

fun assign :: "'g env \<Rightarrow> assignment \<Rightarrow> fence_row \<Rightarrow> fence_row" where
  "assign env (SetName v) r = r\<lparr>fence_name := v\<rparr>"
| "assign env (SetGeometry v) r = r\<lparr>fence_geometry := v, fence_area := store_area env v\<rparr>"
| "assign env (SetPurpose v) r = r\<lparr>attrs := (attrs r)\<lparr>fence_purpose := Some v\<rparr>\<rparr>"
| "assign env (SetDescription v) r = r\<lparr>attrs := (attrs r)\<lparr>fence_description := Some v\<rparr>\<rparr>"
| "assign env (SetColor v) r = r\<lparr>attrs := (attrs r)\<lparr>fence_color := v\<rparr>\<rparr>"
| "assign env (SetOpacity v) r = r\<lparr>attrs := (attrs r)\<lparr>fence_opacity := v\<rparr>\<rparr>"
| "assign env (SetTags v) r = r\<lparr>attrs := (attrs r)\<lparr>fence_tags := Some v\<rparr>\<rparr>"
| "assign env (SetConfig v) r = r\<lparr>attrs := (attrs r)\<lparr>fence_config := Some v\<rparr>\<rparr>"
| "assign env (SetUpdatedAt v) r = r\<lparr>updated_at := Some v\<rparr>"

definition supplied :: "'a option \<Rightarrow> ('a \<Rightarrow> assignment) \<Rightarrow> assignment list" where
  "supplied v f = (case v of None \<Rightarrow> [] | Some x \<Rightarrow> [f x])"

text \<open>
  \<^verbatim>\<open>UPDATE electronic_fences SET ... WHERE id = $n AND fence_status = 'active' RETURNING ...\<close>:
  the rows it returns (as they are after the update) and the store.
\<close>

definition update_active_fence ::
  "'g env \<Rightarrow> assignment list \<Rightarrow> int \<Rightarrow> store \<Rightarrow> fence_row list \<times> store" where
  "update_active_fence env update_fields fence_id s =
     (let matches = (\<lambda>r. row_id r = fence_id \<and> fence_status r = ''active'');
          change = (\<lambda>r. fold (assign env) update_fields r)
      in (map change (filter matches (electronic_fences s)),
          s\<lparr>electronic_fences :=
               map (\<lambda>r. if matches r then change r else r) (electronic_fences s)\<rparr>))"

text \<open>
  The block of \<^verbatim>\<open>update_fence\<close> that collects \<^verbatim>\<open>update_fields\<close> and the parameters:
  one assignment per supplied argument; a supplied geometry is validated and converted on
  the way, and either step may raise.
\<close>

definition build_update_fields :: "'g env \<Rightarrow> fence_update \<Rightarrow> exn + assignment list" where
  "build_update_fields env u =
     (case (case new_geometry u of
              None \<Rightarrow> Inr []
            | Some geometry_arg \<Rightarrow>
                if \<not> validate_geometry env geometry_arg then Inl InvalidGeometryData
                else (case wkt_of_geometry env geometry_arg of
                        Inl e \<Rightarrow> Inl e
                      | Inr wkt_geometry \<Rightarrow> Inr [SetGeometry wkt_geometry])) of
        Inl e \<Rightarrow> Inl e
      | Inr geometry_fields \<Rightarrow>
          Inr (supplied (new_name u) SetName @ geometry_fields
               @ supplied (new_purpose u) SetPurpose
               @ supplied (new_description u) SetDescription
               @ supplied (new_color u) SetColor
               @ supplied (new_opacity u) SetOpacity
               @ supplied (new_tags u) SetTags
               @ supplied (new_config u) SetConfig))"

definition update_fence ::
  "'g env \<Rightarrow> int \<Rightarrow> fence_update \<Rightarrow> world \<Rightarrow> (exn + fence_report) \<times> world" where
  "update_fence env fence_id u w =
     (case get_db_connection w of
        Inl e \<Rightarrow> (Inl e, w)
      | Inr c \<Rightarrow>
          (case build_update_fields env u of
             Inl e \<Rightarrow> (Inl e, w)
           | Inr update_fields \<Rightarrow>
               if update_fields = [] then (Inl NoFieldsToUpdate, w)
               else
                 (case update_active_fence env (update_fields @ [SetUpdatedAt (now w)])
                         fence_id (db w) of
                    ([], s) \<Rightarrow> (Inl FenceMissingOrDeleted, w\<lparr>db := s\<rparr>)
                  | (result # others, s) \<Rightarrow>
                      (case (if new_geometry u \<noteq> None
                             then detect_fence_overlaps env fence_id (w\<lparr>db := s\<rparr>)
                             else ([], w\<lparr>db := s\<rparr>)) of
                         (overlaps, w') \<Rightarrow>
                           (Inr \<lparr>rep_fence_id = fence_id,
                                 rep_fence_name = fence_name result,
                                 rep_fence_area = fence_area result,
                                 overlaps_detected = (length overlaps > 0),
                                 overlaps_count = length overlaps\<rparr>,
                            clear_fence_cache w')))))"

text \<open>
  \<^verbatim>\<open>delete_fence\<close>: the soft delete
  \<^verbatim>\<open>UPDATE ... SET fence_status = 'deleted', deleted_at = CURRENT_TIMESTAMP
  WHERE id = $1 AND fence_status != 'deleted' RETURNING id, fence_name\<close>, then
  \<^verbatim>\<open>DELETE FROM fence_overlaps WHERE fence_id_1 = $1 OR fence_id_2 = $1\<close>. A success
  returns the id and the name of the fence.
\<close>

definition delete_fence :: "int \<Rightarrow> world \<Rightarrow> (exn + int \<times> string) \<times> world" where
  "delete_fence fence_id w =
     (case get_db_connection w of
        Inl e \<Rightarrow> (Inl e, w)
      | Inr c \<Rightarrow>
          (let matches = (\<lambda>r. row_id r = fence_id \<and> fence_status r \<noteq> ''deleted'') in
           case filter matches (electronic_fences (db w)) of
             [] \<Rightarrow> (Inl FenceMissingOrDeleted, w)
           | result # others \<Rightarrow>
               (let s1 = (db w)\<lparr>electronic_fences :=
                            map (\<lambda>r. if matches r
                                      then r\<lparr>fence_status := ''deleted'', deleted_at := Some (now w)\<rparr>
                                      else r) (electronic_fences (db w))\<rparr>;
                    s2 = s1\<lparr>fence_overlaps :=
                            filter (\<lambda>ov. \<not> (fence_id_1 ov = fence_id \<or> fence_id_2 ov = fence_id))
                              (fence_overlaps s1)\<rparr>
                in (Inr (fence_id, fence_name result), clear_fence_cache (w\<lparr>db := s2\<rparr>)))))"




subsection \<open>Validation as the specification words it\<close>



subsection \<open>Merge and split\<close>

record merge_report =
  new_fence_id :: int
  merged_fence_ids :: "int list"
  merge_overlaps_detected :: bool
  merge_overlaps_count :: nat

text \<open>
  \<^verbatim>\<open>merge_fences\<close>. \<^verbatim>\<open>if new_fence_id:\<close> is false for \<^verbatim>\<open>None\<close> and for 0. An exception
  of the stored function leaves the store as it was.
\<close>

definition merge_fences ::
  "'g env \<Rightarrow> int list \<Rightarrow> string \<Rightarrow> int option \<Rightarrow> world \<Rightarrow> (exn + merge_report) \<times> world" where
  "merge_fences env fence_ids new_fence_name operator_id w =
     (if length fence_ids < 2 then (Inl TooFewFences, w)
      else
        case get_db_connection w of
          Inl e \<Rightarrow> (Inl e, w)
        | Inr c \<Rightarrow>
            (case merge_fences_sql env (db w) fence_ids new_fence_name operator_id of
               Inl e \<Rightarrow> (Inl e, w)
             | Inr (answer, s) \<Rightarrow>
                 (case (case answer of None \<Rightarrow> None
                        | Some i \<Rightarrow> if i = 0 then None else Some i) of
                    None \<Rightarrow> (Inl MergeFailed, w\<lparr>db := s\<rparr>)
                  | Some fence_id \<Rightarrow>
                      (case detect_fence_overlaps env fence_id (w\<lparr>db := s\<rparr>) of
                         (overlaps, w') \<Rightarrow>
                           (Inr \<lparr>new_fence_id = fence_id, merged_fence_ids = fence_ids,
                                 merge_overlaps_detected = (length overlaps > 0),
                                 merge_overlaps_count = length overlaps\<rparr>,
                            clear_fence_cache w')))))"

text \<open>
  A cutting line is well-known text or a GeoJSON dict read with \<^verbatim>\<open>.get\<close>.
\<close>

record geojson_line =
  l_type :: "string option"
  l_coordinates :: "ring option"

datatype line_data = LineWkt string | LineGeoJson geojson_line

record split_report =
  original_fence_id :: int
  new_fence_ids :: "int list"
  parts_count :: nat
  split_overlaps_detected :: bool
  split_overlaps_count :: nat

text \<open>The first block of \<^verbatim>\<open>split_fence\<close>: the cutting line as well-known text.\<close>

definition split_line_wkt :: "'g env \<Rightarrow> line_data \<Rightarrow> exn + string" where
  "split_line_wkt env split_line =
     (case split_line of
        LineGeoJson d \<Rightarrow>
          if l_type d \<noteq> Some ''LineString'' then Inl SplitLineNotLineString
          else
            (let coords = (case l_coordinates d of None \<Rightarrow> [] | Some c \<Rightarrow> c) in
             if length coords < 2 then Inl SplitLineTooShort
             else (case ring_wkt env coords of
                     Inl e \<Rightarrow> Inl e
                   | Inr coords_wkt \<Rightarrow> Inr (''LINESTRING('' @ coords_wkt @ '')'')))
      | LineWkt s \<Rightarrow> Inr s)"

text \<open>The loop of \<^verbatim>\<open>split_fence\<close> over the new ids, summing the overlap counts.\<close>

fun detect_each :: "'g env \<Rightarrow> int list \<Rightarrow> nat \<Rightarrow> world \<Rightarrow> nat \<times> world" where
  "detect_each env [] overlaps_total w = (overlaps_total, w)"
| "detect_each env (i # ids) overlaps_total w =
     (case detect_fence_overlaps env i w of
        (overlaps, w') \<Rightarrow> detect_each env ids (overlaps_total + length overlaps) w')"

definition split_fence ::
  "'g env \<Rightarrow> int \<Rightarrow> line_data \<Rightarrow> int option \<Rightarrow> world \<Rightarrow> (exn + split_report) \<times> world" where
  "split_fence env fence_id split_line operator_id w =
     (case split_line_wkt env split_line of
        Inl e \<Rightarrow> (Inl e, w)
      | Inr line_wkt \<Rightarrow>
          (case get_db_connection w of
             Inl e \<Rightarrow> (Inl e, w)
           | Inr c \<Rightarrow>
               (case split_fence_sql env (db w) fence_id line_wkt operator_id of
                  Inl e \<Rightarrow> (Inl e, w)
                | Inr (answer, s) \<Rightarrow>
                    (case (case answer of None \<Rightarrow> [] | Some ids \<Rightarrow> ids) of
                       [] \<Rightarrow> (Inl SplitFailed, w\<lparr>db := s\<rparr>)
                     | i # ids \<Rightarrow>
                         (case detect_each env (i # ids) 0 (w\<lparr>db := s\<rparr>) of
                            (overlaps_total, w') \<Rightarrow>
                              (Inr \<lparr>original_fence_id = fence_id, new_fence_ids = i # ids,
                                    parts_count = length (i # ids),
                                    split_overlaps_detected = (overlaps_total > 0),
                                    split_overlaps_count = overlaps_total\<rparr>,
                               clear_fence_cache w'))))))"

subsection \<open>GeoJSON import\<close>

text \<open>
  A feature of the input is a dict read with \<^verbatim>\<open>.get\<close>, or some other JSON value. Its
  \<^verbatim>\<open>properties\<close> may be absent (the default \<^verbatim>\<open>{}\<close> is used), \<^verbatim>\<open>null\<close>, or a dict.
\<close>

record feature_properties =
  p_fence_name :: "string option"
  p_fence_type :: "string option"
  p_fence_purpose :: "string option"
  p_fence_description :: "string option"
  p_fence_color :: "string option"
  p_fence_opacity :: "rat option"
  p_fence_tags :: "pydict option"
  p_fence_config :: "pydict option"

datatype properties_value = NoProperties | NullProperties | Properties feature_properties

record feature =
  f_type :: "string option"
  f_geometry :: "geometry_data option"
  f_properties :: properties_value

datatype feature_value = FeatureDict feature | NotADict

record feature_collection =
  c_type :: "string option"
  c_features :: "feature_value list option"

text \<open>The counters and the result list of the import loop.\<close>

record import_counts =
  n_imported :: nat
  n_skipped :: nat
  n_error :: nat
  acc_results :: "(exn + fence_report) list"

record import_report =
  imported_count :: nat
  skipped_count :: nat
  error_count :: nat
  total_features :: nat
  results :: "(exn + fence_report) list"

text \<open>Python's \<^verbatim>\<open>not geometry\<close>: \<^verbatim>\<open>None\<close>, the empty string and the empty dict.\<close>

definition geometry_falsy :: "geometry_data option \<Rightarrow> bool" where
  "geometry_falsy g =
     (case g of
        None \<Rightarrow> True
      | Some (Wkt s) \<Rightarrow> s = []
      | Some (GeoJson d) \<Rightarrow> g_type d = None \<and> g_coordinates d = None
      | Some NotGeometry \<Rightarrow> False)"

definition no_properties :: feature_properties where
  "no_properties =
     \<lparr>p_fence_name = None, p_fence_type = None, p_fence_purpose = None,
      p_fence_description = None, p_fence_color = None, p_fence_opacity = None,
      p_fence_tags = None, p_fence_config = None\<rparr>"

definition or_default :: "'a option \<Rightarrow> 'a \<Rightarrow> 'a" where
  "or_default v d = (case v of None \<Rightarrow> d | Some x \<Rightarrow> x)"

text \<open>
  \<^verbatim>\<open>properties = feature.get('properties', {})\<close>: the dict the later \<^verbatim>\<open>.get\<close> calls
  read, none when the value is \<^verbatim>\<open>null\<close> (those calls then raise).
\<close>

definition properties_of :: "feature \<Rightarrow> feature_properties option" where
  "properties_of f =
     (case f_properties f of
        NoProperties \<Rightarrow> Some no_properties
      | NullProperties \<Rightarrow> None
      | Properties p \<Rightarrow> Some p)"

text \<open>
  The block that extracts the arguments of \<^verbatim>\<open>create_fence\<close> from the properties: the
  name, with a default made of the source's Chinese prefix ("imported fence", written in
  ASCII here) and the running number, and the other attributes with their defaults.
\<close>

definition import_name :: "feature_properties \<Rightarrow> nat \<Rightarrow> string" where
  "import_name properties imported =
     or_default (p_fence_name properties) (''imported_fence_'' @ str_int (int imported + 1))"

definition import_attrs :: "feature_properties \<Rightarrow> int option \<Rightarrow> fence_attrs" where
  "import_attrs properties operator_id =
     \<lparr>fence_type = or_default (p_fence_type properties) ''polygon'',
      fence_purpose = p_fence_purpose properties,
      fence_description = p_fence_description properties,
      fence_color = or_default (p_fence_color properties) ''#FF0000'',
      fence_opacity = or_default (p_fence_opacity properties) (3 / 10),
      group_id = None, owner_id = None, creator_id = operator_id,
      fence_tags = p_fence_tags properties,
      fence_config = p_fence_config properties\<rparr>"

text \<open>
  One pass of the loop body of \<^verbatim>\<open>import_fences_geojson\<close>, its inner \<^verbatim>\<open>try\<close> included:
  any exception adds one to the error count.
\<close>

definition import_feature ::
  "'g env \<Rightarrow> int option \<Rightarrow> feature_value \<Rightarrow> import_counts \<Rightarrow> world
     \<Rightarrow> import_counts \<times> world" where
  "import_feature env operator_id fv c w =
     (case fv of
        NotADict \<Rightarrow> (c\<lparr>n_error := n_error c + 1\<rparr>, w)
      | FeatureDict f \<Rightarrow>
          if f_type f \<noteq> Some ''Feature'' then (c\<lparr>n_skipped := n_skipped c + 1\<rparr>, w)
          else
            (case f_geometry f of
               None \<Rightarrow> (c\<lparr>n_error := n_error c + 1\<rparr>, w)
             | Some geometry \<Rightarrow>
                 if geometry_falsy (Some geometry) \<or> \<not> validate_geometry env geometry
                 then (c\<lparr>n_error := n_error c + 1\<rparr>, w)
                 else
                   (case properties_of f of
                      None \<Rightarrow> (c\<lparr>n_error := n_error c + 1\<rparr>, w)
                    | Some properties \<Rightarrow>
                        (case create_fence env (import_name properties (n_imported c))
                                geometry (import_attrs properties operator_id) w of
                           (Inr report, w') \<Rightarrow>
                             (c\<lparr>n_imported := n_imported c + 1,
                                acc_results := acc_results c @ [Inr report]\<rparr>, w')
                         | (Inl e, w') \<Rightarrow>
                             (c\<lparr>n_error := n_error c + 1,
                                acc_results := acc_results c @ [Inl e]\<rparr>, w')))))"

fun import_loop ::
  "'g env \<Rightarrow> int option \<Rightarrow> feature_value list \<Rightarrow> import_counts \<Rightarrow> world
     \<Rightarrow> import_counts \<times> world" where
  "import_loop env operator_id [] c w = (c, w)"
| "import_loop env operator_id (fv # rest) c w =
     (case import_feature env operator_id fv c w of
        (c', w') \<Rightarrow> import_loop env operator_id rest c' w')"

definition import_fences_geojson ::
  "'g env \<Rightarrow> feature_collection \<Rightarrow> int option \<Rightarrow> world \<Rightarrow> (exn + import_report) \<times> world" where
  "import_fences_geojson env geojson_data operator_id w =
     (if c_type geojson_data \<noteq> Some ''FeatureCollection'' then (Inl NotFeatureCollection, w)
      else
        (let features = (case c_features geojson_data of None \<Rightarrow> [] | Some fs \<Rightarrow> fs) in
         if features = [] then (Inl NoFeatures, w)
         else
           (case import_loop env operator_id features
                   \<lparr>n_imported = 0, n_skipped = 0, n_error = 0, acc_results = []\<rparr> w of
              (c, w') \<Rightarrow>
                (Inr \<lparr>imported_count = n_imported c, skipped_count = n_skipped c,
                      error_count = n_error c, total_features = length features,
                      results = acc_results c\<rparr>, w'))))"

subsection \<open>A concrete environment and concrete worlds\<close>

text \<open>
  An environment to run the operations in: a geometry is stood for by its area in square
  degrees; every text that starts with \<^verbatim>\<open>POLYGON\<close> parses to a geometry of area 1, a
  polygon needs a shell of four points, every geometry is valid, and the projection scales
  the area. The detection function reports every other active fence as overlapping by one
  half and writes nothing; the table \<^verbatim>\<open>fence_overlaps\<close> has no constraint besides its unique key; the split
  function answers two fresh ids for any line, the merge function one.
\<close>

definition demo_hits :: "store \<Rightarrow> int \<Rightarrow> overlap_hit list" where
  "demo_hits s i =
     map (\<lambda>r. \<lparr>overlapping_fence_id = row_id r, hit_area = 1 / 2, hit_percentage = 50,
                hit_type = ''partial''\<rparr>)
       (filter (\<lambda>r. row_id r \<noteq> i \<and> fence_status r = ''active'') (electronic_fences s))"

definition demo_env :: "rat env" where
  "demo_env =
     \<lparr>shapely_wkt_loads = (\<lambda>s. if take 7 s = ''POLYGON'' then Some 1 else None),
      shapely_polygon = (\<lambda>shell holes. if length shell < 4 then None else Some 1),
      shapely_is_valid = (\<lambda>g. True),
      shapely_make_valid = (\<lambda>g. Some g),
      shapely_area = (\<lambda>g. g),
      pyproj_transform = (\<lambda>g. Some (g * 12392000000)),
      float_str = (\<lambda>q. if q = 0 then ''0.0'' else if q = 1 then ''1.0'' else ''2.0''),
      store_area = (\<lambda>s. None),
      overlap_row_allowed = (\<lambda>a b. True),
      detect_overlaps_sql = (\<lambda>s i. Inr (demo_hits s i, s)),
      merge_fences_sql =
        (\<lambda>s ids name operator. Inr (Some (next_fence_id s), s\<lparr>next_fence_id := next_fence_id s + 1\<rparr>)),
      split_fence_sql =
        (\<lambda>s i line operator.
           Inr (Some [next_fence_id s, next_fence_id s + 1],
                s\<lparr>next_fence_id := next_fence_id s + 2\<rparr>))\<rparr>"

definition demo_attrs :: fence_attrs where
  "demo_attrs =
     \<lparr>fence_type = ''polygon'', fence_purpose = None, fence_description = None,
      fence_color = ''#FF0000'', fence_opacity = 3 / 10, group_id = None, owner_id = None,
      creator_id = None, fence_tags = None, fence_config = None\<rparr>"

definition demo_fence :: "int \<Rightarrow> string \<Rightarrow> string \<Rightarrow> fence_row" where
  "demo_fence i name status =
     \<lparr>row_id = i, fence_name = name, fence_geometry = ''POLYGON((0 0,0 1,1 1,1 0,0 0))'',
      fence_status = status, fence_area = None, attrs = demo_attrs, updated_at = None,
      deleted_at = (if status = ''deleted'' then Some 50 else None)\<rparr>"

definition demo_overlap :: "int \<Rightarrow> int \<Rightarrow> overlap_row" where
  "demo_overlap a b =
     \<lparr>fence_id_1 = a, fence_id_2 = b, overlap_area = 1 / 2, overlap_percentage_1 = 50,
      overlap_percentage_2 = 0, overlap_type = ''partial'', detected_at = 100\<rparr>"

text \<open>
  A world at time 200 with fence 1 active, fence 2 deleted, fences 3 and 4 active, three
  overlap rows, one entry in the local cache tier and one in the shared tier.
\<close>

definition demo_world :: world where
  "demo_world =
     \<lparr>db_pool_ready = True,
      db = \<lparr>electronic_fences =
              [demo_fence 1 ''depot'' ''active'', demo_fence 2 ''yard'' ''deleted'',
               demo_fence 3 ''dock'' ''active'', demo_fence 4 ''yard'' ''active''],
            fence_overlaps = [demo_overlap 1 3, demo_overlap 3 1, demo_overlap 3 4],
            next_fence_id = 5\<rparr>,
      memory_cache = [(''fence_statistics:0'', (100, ''statistics before the delete''))],
      redis_client =
        Some [(''fence_list:0'', (1000, JsonText ''fence list before the delete''))],
      stats = \<lparr>hits = 0, misses = 0, redis_hits = 0, redis_misses = 0\<rparr>,
      now = 200\<rparr>"

text \<open>A world with the two active fences 1 and 2 and no overlap row yet.\<close>

definition two_fences :: world where
  "two_fences =
     \<lparr>db_pool_ready = True,
      db = \<lparr>electronic_fences = [demo_fence 1 ''A'' ''active'', demo_fence 2 ''B'' ''active''],
            fence_overlaps = [], next_fence_id = 3\<rparr>,
      memory_cache = [], redis_client = None,
      stats = \<lparr>hits = 0, misses = 0, redis_hits = 0, redis_misses = 0\<rparr>,
      now = 200\<rparr>"

text \<open>A unit square as a GeoJSON polygon, and the same dict with no coordinates.\<close>

definition unit_square :: geometry_data where
  "unit_square =
     GeoJson \<lparr>g_type = Some ''Polygon'',
              g_coordinates = Some [[[0, 0], [0, 1], [1, 1], [1, 0], [0, 0]]]\<rparr>"

definition empty_polygon :: geometry_data where
  "empty_polygon = GeoJson \<lparr>g_type = Some ''Polygon'', g_coordinates = Some []\<rparr>"

definition demo_feature :: "geometry_data \<Rightarrow> feature_value" where
  "demo_feature g =
     FeatureDict \<lparr>f_type = Some ''Feature'', f_geometry = Some g, f_properties = NoProperties\<rparr>"

text \<open>The example environment with a detection function that always raises.\<close>

definition failing_env :: "rat env" where
  "failing_env =
     demo_env\<lparr>detect_overlaps_sql := (\<lambda>s i. Inl (StoreError ''detect_fence_overlaps''))\<rparr>"

definition new_geometry_only :: fence_update where
  "new_geometry_only =
     \<lparr>new_name = None, new_geometry = Some unit_square, new_purpose = None,
      new_description = None, new_color = None, new_opacity = None, new_tags = None,
      new_config = None\<rparr>"


text \<open>
  A unit square whose points carry a third coordinate: shapely builds the polygon, the
  unpacking \<^verbatim>\<open>for lon, lat in exterior\<close> of the conversion raises.
\<close>

definition square_3d :: geometry_data where
  "square_3d =
     GeoJson \<lparr>g_type = Some ''Polygon'',
              g_coordinates =
                Some [[[0, 0, 5], [0, 1, 5], [1, 1, 5], [1, 0, 5], [0, 0, 5]]]\<rparr>"



section \<open>The zoom policy resolver\<close>

subsection \<open>Python's max and min, thresholds and limits\<close>

lemma py_max_Max: "xs \<noteq> [] \<Longrightarrow> py_max xs = Inr (Max (set xs))"
proof (cases xs)
  case (Cons a list)
  then show ?thesis using Max.set_eq_fold[of a list] by simp
qed simp

lemma py_min_Min: "xs \<noteq> [] \<Longrightarrow> py_min xs = Inr (Min (set xs))"
proof (cases xs)
  case (Cons a list)
  then show ?thesis using Min.set_eq_fold[of a list] by simp
qed simp

lemma set_upto: "set (filter (\<lambda>z. z \<le> zoom) (map fst lims)) = thresholds_upto lims zoom"
  by (auto simp: thresholds_upto_def)

lemma upto_empty: "filter (\<lambda>z. z \<le> zoom) (map fst lims) = [] \<longleftrightarrow> thresholds_upto lims zoom = {}"
  using set_upto[of zoom lims] by (metis set_empty)

lemma sort_Nil_iff: "sort xs = [] \<longleftrightarrow> xs = []"
  by (metis length_0_conv length_sort)

lemma dict_get_key: "t \<in> fst ` set lims \<Longrightarrow> \<exists>l. map_of lims t = Some l \<and> dict_get lims t = Inr l"
  by (cases "map_of lims t") (auto simp: dict_get_def map_of_eq_None_iff)

lemma greatest_in: "thresholds_upto lims zoom \<noteq> {} \<Longrightarrow> Max (thresholds_upto lims zoom) \<in> fst ` set lims"
proof -
  assume ne: "thresholds_upto lims zoom \<noteq> {}"
  have "finite (thresholds_upto lims zoom)" by (simp add: thresholds_upto_def)
  from Max_in[OF this ne] show ?thesis by (simp add: thresholds_upto_def)
qed

lemma ttl_eq: "calc_cache_ttl zoom = spec_ttl zoom"
  by (simp add: calc_cache_ttl_def spec_ttl_def mult.commute)

lemma tol_eq: "calc_simplify_tolerance zoom = spec_tolerance zoom"
  by (simp add: calc_simplify_tolerance_def spec_tolerance_def)

lemma strategy_policy_prescribed:
  assumes "limits s \<noteq> []"
  shows "\<exists>p. strategy_policy s zoom = Inr p \<and> prescribed_for s zoom p"
proof (cases "always_load s")
  case True
  show ?thesis
  proof (cases "thresholds_upto (limits s) zoom = {}")
    case e: True
    have m: "map fst (limits s) \<noteq> []" using assms by simp
    have "Min (fst ` set (limits s)) \<in> fst ` set (limits s)"
      using assms by (intro Min_in) auto
    from dict_get_key[OF this] obtain l where
      l: "map_of (limits s) (Min (fst ` set (limits s))) = Some l"
         "dict_get (limits s) (Min (fst ` set (limits s))) = Inr l" by blast
    show ?thesis using True e l py_min_Min[OF m]
      by (simp add: strategy_policy_def prescribed_for_def upto_empty greatest_threshold_def
          smallest_threshold_def ttl_eq)
  next
    case ne: False
    from dict_get_key[OF greatest_in[OF ne]] obtain l where
      l: "map_of (limits s) (Max (thresholds_upto (limits s) zoom)) = Some l"
         "dict_get (limits s) (Max (thresholds_upto (limits s) zoom)) = Inr l" by blast
    have f: "filter (\<lambda>z. z \<le> zoom) (map fst (limits s)) \<noteq> []" using ne by (simp add: upto_empty)
    have pm: "py_max (filter (\<lambda>z. z \<le> zoom) (map fst (limits s)))
        = Inr (Max (thresholds_upto (limits s) zoom))"
      using py_max_Max[OF f] by (simp only: set_upto)
    show ?thesis using True ne l pm f
      by (simp add: strategy_policy_def prescribed_for_def greatest_threshold_def ttl_eq)
  qed
next
  case na: False
  show ?thesis
  proof (cases "zoom < min_zoom s")
    case True
    then show ?thesis using na
      by (simp add: strategy_policy_def prescribed_for_def no_load_def)
  next
    case nlow: False
    show ?thesis
    proof (cases "zoom \<ge> 16")
      case True
      have "map snd (limits s) \<noteq> []" using assms by simp
      from py_max_Max[OF this] show ?thesis using na nlow True assms
        by (simp add: strategy_policy_def prescribed_for_def HIGH_ZOOM_THRESHOLD_def)
    next
      case nhigh: False
      show ?thesis
      proof (cases "thresholds_upto (limits s) zoom = {}")
        case True
        then have "filter (\<lambda>z. z \<le> zoom) (map fst (limits s)) = []"
          using upto_empty by blast
        then have e: "sort (filter (\<lambda>z. z \<le> zoom) (map fst (limits s))) = []"
          by simp
        show ?thesis using na nlow nhigh True e
          by (simp add: strategy_policy_def prescribed_for_def HIGH_ZOOM_THRESHOLD_def
              greatest_threshold_def no_load_def)
      next
        case ne: False
        from dict_get_key[OF greatest_in[OF ne]] obtain l where
          l: "map_of (limits s) (Max (thresholds_upto (limits s) zoom)) = Some l"
             "dict_get (limits s) (Max (thresholds_upto (limits s) zoom)) = Inr l" by blast
        have f: "sort (filter (\<lambda>z. z \<le> zoom) (map fst (limits s))) \<noteq> []"
          using ne by (simp add: upto_empty sort_Nil_iff)
        have pm: "py_max (sort (filter (\<lambda>z. z \<le> zoom) (map fst (limits s))))
            = Inr (Max (thresholds_upto (limits s) zoom))"
          using py_max_Max[OF f] by (simp only: set_sort set_upto)
        show ?thesis using na nlow nhigh ne l pm f
          by (simp add: strategy_policy_def prescribed_for_def HIGH_ZOOM_THRESHOLD_def
              greatest_threshold_def ttl_eq tol_eq)
      qed
    qed
  qed
qed

lemma table_limits_nonempty:
  "map_of LAYER_ZOOM_STRATEGIES layer = Some s \<Longrightarrow> limits s \<noteq> []"
  by (drule map_of_SomeD) (auto simp: LAYER_ZOOM_STRATEGIES_def)

text \<open>
  Claim C1. For every layer name and every integer zoom, \<^verbatim>\<open>get_layer_zoom_strategy\<close>
  raises nothing and returns a policy that is the one the specification's algorithm
  prescribes: not loaded with reason not-configured for a layer outside the table; for an
  always-load layer, loaded with the limit of the greatest configured threshold not above
  the zoom (the smallest threshold when there is none), tolerance 0 and TTL
  \<open>max 300 (600 - 15 * zoom)\<close>; otherwise not loaded with reason zoom-too-low below the
  layer's minimum zoom; loaded with the greatest configured limit and tolerance 0 from zoom
  16 on; and in the remaining case loaded with the limit of the greatest configured
  threshold not above the zoom, the step tolerance 100, 20, 5, 1 and the same TTL. The
  resolver is a function of the layer name and the zoom alone (it reads the static table
  and no state), so equal inputs give equal policies.
\<close>

theorem resolver_follows_spec:
  "\<exists>p. get_layer_zoom_strategy layer zoom = Inr p \<and> prescribed layer zoom p"
proof (cases "map_of LAYER_ZOOM_STRATEGIES layer")
  case None
  then show ?thesis by (simp add: get_layer_zoom_strategy_def prescribed_def no_load_def)
next
  case (Some s)
  from strategy_policy_prescribed[OF table_limits_nonempty[OF Some]] Some
  show ?thesis by (simp add: get_layer_zoom_strategy_def prescribed_def)
qed

subsection \<open>Feature limits along the zoom axis\<close>

lemma monotone_limitsD:
  "monotone_limits lims \<Longrightarrow> (t1, l1) \<in> set lims \<Longrightarrow> (t2, l2) \<in> set lims
     \<Longrightarrow> t1 \<le> t2 \<Longrightarrow> l1 \<le> l2"
  by (fastforce simp: monotone_limits_def list_all_iff)

lemma upto_mono: "z1 \<le> z2 \<Longrightarrow> thresholds_upto lims z1 \<subseteq> thresholds_upto lims z2"
  by (auto simp: thresholds_upto_def)

lemma strategy_limit_monotone:
  assumes na: "\<not> always_load s"
    and mono: "monotone_limits (limits s)"
    and key: "min_zoom s \<in> fst ` set (limits s)"
    and lo: "min_zoom s \<le> z1" and lt: "z1 < z2"
  shows "\<exists>p1 p2 l1 l2. strategy_policy s z1 = Inr p1 \<and> strategy_policy s z2 = Inr p2
           \<and> load_data p1 \<and> load_data p2
           \<and> max_features p1 = Some l1 \<and> max_features p2 = Some l2 \<and> l1 \<le> l2"
proof -
  have ne: "limits s \<noteq> []" using key by auto
  obtain p1 where p1: "strategy_policy s z1 = Inr p1" "prescribed_for s z1 p1"
    using strategy_policy_prescribed[OF ne] by blast
  obtain p2 where p2: "strategy_policy s z2 = Inr p2" "prescribed_for s z2 p2"
    using strategy_policy_prescribed[OF ne] by blast
  have fin: "\<And>z. finite (thresholds_upto (limits s) z)" by (simp add: thresholds_upto_def)
  have in1: "min_zoom s \<in> thresholds_upto (limits s) z1"
    using key lo by (simp add: thresholds_upto_def)
  have in2: "min_zoom s \<in> thresholds_upto (limits s) z2"
    using key lo lt by (simp add: thresholds_upto_def)
  have ne1: "thresholds_upto (limits s) z1 \<noteq> {}" using in1 by blast
  have ne2: "thresholds_upto (limits s) z2 \<noteq> {}" using in2 by blast
  let ?t1 = "Max (thresholds_upto (limits s) z1)"
  let ?t2 = "Max (thresholds_upto (limits s) z2)"
  obtain l1 where l1: "map_of (limits s) ?t1 = Some l1"
    using dict_get_key[OF greatest_in[OF ne1]] by blast
  obtain l2 where l2: "map_of (limits s) ?t2 = Some l2"
    using dict_get_key[OF greatest_in[OF ne2]] by blast
  have m1: "(?t1, l1) \<in> set (limits s)" using l1 by (rule map_of_SomeD)
  have m2: "(?t2, l2) \<in> set (limits s)" using l2 by (rule map_of_SomeD)
  have t12: "?t1 \<le> ?t2"
    using Max_mono[OF upto_mono[of z1 z2 "limits s"] ne1 fin] lt by simp
  have l12: "l1 \<le> l2" using monotone_limitsD[OF mono m1 m2 t12] .
  have top: "l1 \<le> Max (snd ` set (limits s))"
    using m1 by (intro Max_ge) (auto simp: image_iff intro: bexI[of _ "(?t1, l1)"])
  show ?thesis
  proof (cases "z1 \<ge> 16")
    case True
    then have "z2 \<ge> 16" using lt by simp
    with True p1 p2 na lo lt show ?thesis
      by (simp add: prescribed_for_def)
  next
    case False
    note low1 = this
    show ?thesis
    proof (cases "z2 \<ge> 16")
      case True
      with low1 p1 p2 na lo lt ne1 l1 top show ?thesis
        by (simp add: prescribed_for_def greatest_threshold_def)
    next
      case False
      with low1 p1 p2 na lo lt ne1 ne2 l1 l2 l12 show ?thesis
        by (simp add: prescribed_for_def greatest_threshold_def)
    qed
  qed
qed

lemma table_monotone:
  "map_of LAYER_ZOOM_STRATEGIES layer = Some s \<Longrightarrow> layer \<noteq> ''land_polygons''
     \<Longrightarrow> monotone_limits (limits s) \<and> min_zoom s \<in> fst ` set (limits s)"
  by (drule map_of_SomeD) (auto simp: LAYER_ZOOM_STRATEGIES_def monotone_limits_def)

text \<open>
  Claim C4, as amended. For every configured layer other than \<^verbatim>\<open>land_polygons\<close> that is
  not always-load, and all zooms \<open>zoom1 < zoom2\<close> at or above the layer's minimum zoom,
  the resolver loads at both zooms and the feature limit at \<open>zoom2\<close> is at least the limit
  at \<open>zoom1\<close>; and an always-load layer is loaded at every zoom.
\<close>

theorem limit_monotone_except_land_polygons:
  assumes "map_of LAYER_ZOOM_STRATEGIES layer = Some s"
  shows "(\<not> always_load s \<and> layer \<noteq> ''land_polygons'' \<and> min_zoom s \<le> zoom1 \<and> zoom1 < zoom2
            \<longrightarrow> (\<exists>p1 p2 l1 l2. get_layer_zoom_strategy layer zoom1 = Inr p1
                   \<and> get_layer_zoom_strategy layer zoom2 = Inr p2
                   \<and> load_data p1 \<and> load_data p2
                   \<and> max_features p1 = Some l1 \<and> max_features p2 = Some l2 \<and> l1 \<le> l2))
       \<and> (always_load s \<longrightarrow> (\<exists>p. get_layer_zoom_strategy layer zoom = Inr p \<and> load_data p))"
proof (intro conjI impI)
  assume h: "\<not> always_load s \<and> layer \<noteq> ''land_polygons'' \<and> min_zoom s \<le> zoom1 \<and> zoom1 < zoom2"
  from table_monotone[OF assms] h have
    "monotone_limits (limits s)" "min_zoom s \<in> fst ` set (limits s)" by simp_all
  from strategy_limit_monotone[OF _ this, of zoom1 zoom2] h assms
  show "\<exists>p1 p2 l1 l2. get_layer_zoom_strategy layer zoom1 = Inr p1
                   \<and> get_layer_zoom_strategy layer zoom2 = Inr p2
                   \<and> load_data p1 \<and> load_data p2
                   \<and> max_features p1 = Some l1 \<and> max_features p2 = Some l2 \<and> l1 \<le> l2"
    by (simp add: get_layer_zoom_strategy_def)
next
  assume a: "always_load s"
  obtain p where p: "strategy_policy s zoom = Inr p" "prescribed_for s zoom p"
    using strategy_policy_prescribed[OF table_limits_nonempty[OF assms]] by blast
  with a assms show "\<exists>p. get_layer_zoom_strategy layer zoom = Inr p \<and> load_data p"
    by (simp add: get_layer_zoom_strategy_def prescribed_for_def)
qed

lemmas resolver_eval = get_layer_zoom_strategy_def LAYER_ZOOM_STRATEGIES_def strategy_policy_def
   HIGH_ZOOM_THRESHOLD_def dict_get_def calc_cache_ttl_def calc_simplify_tolerance_def str_int_def str_nat.simps no_load_def

text \<open>
  The claim as stated fails on \<^verbatim>\<open>land_polygons\<close>, whose table lowers the limit from
  threshold 12 on: zooms 10 and 12 are both above its minimum zoom 4, and the limit falls
  from 8000 to 6000.
\<close>

theorem land_polygons_limit_decreases:
  "get_layer_zoom_strategy ''land_polygons'' 10 =
     Inr \<lparr>load_data = True, reason = ''zoom_10_strategy'', max_features = Some 8000,
          simplify_tolerance = Some 20, cache_ttl = Some 450\<rparr>
   \<and> get_layer_zoom_strategy ''land_polygons'' 12 =
     Inr \<lparr>load_data = True, reason = ''zoom_12_strategy'', max_features = Some 6000,
          simplify_tolerance = Some 5, cache_ttl = Some 420\<rparr>"
  by (simp add: resolver_eval)

theorem limit_monotone_except_land_polygons_witness:
  "(\<exists>p1 p2 l1 l2. get_layer_zoom_strategy ''roads'' 9 = Inr p1
                   \<and> get_layer_zoom_strategy ''roads'' 16 = Inr p2
                   \<and> load_data p1 \<and> load_data p2
                   \<and> max_features p1 = Some l1 \<and> max_features p2 = Some l2 \<and> l1 \<le> l2)
   \<and> (\<exists>p. get_layer_zoom_strategy ''fences'' (-2) = Inr p \<and> load_data p)"
proof -
  have r: "map_of LAYER_ZOOM_STRATEGIES ''roads'' =
      Some \<lparr>min_zoom = 7, max_zoom = 20, always_load = False,
        limits = [(7, 3000), (9, 5000), (11, 10000), (13, 20000), (15, 30000)]\<rparr>"
    by (simp add: LAYER_ZOOM_STRATEGIES_def)
  have f: "map_of LAYER_ZOOM_STRATEGIES ''fences'' =
      Some \<lparr>min_zoom = 1, max_zoom = 20, always_load = True,
        limits = [(1, 1000), (10, 3000), (15, 5000)]\<rparr>"
    by (simp add: LAYER_ZOOM_STRATEGIES_def)
  show ?thesis
    using limit_monotone_except_land_polygons[OF r, of 9 16]
      limit_monotone_except_land_polygons[OF f, of _ _ "-2"]
    by simp
qed

text \<open>
  The specification's scenario: the fence layer loads at zoom 3, the road layer (minimum
  zoom 7) does not.
\<close>

lemma resolver_scenario:
  "get_layer_zoom_strategy ''fences'' 3 =
     Inr \<lparr>load_data = True, reason = ''always_load'', max_features = Some 1000,
          simplify_tolerance = Some 0, cache_ttl = Some 555\<rparr>
   \<and> get_layer_zoom_strategy ''roads'' 3 = Inr (no_load ''zoom_too_low'')"
  by (simp add: resolver_eval)


section \<open>The fence store\<close>

text \<open>Equations for running the operations on the example worlds.\<close>

lemmas demo_env_eval = demo_env_def demo_hits_def

lemmas demo_world_eval = demo_world_def demo_fence_def demo_overlap_def demo_attrs_def

lemmas two_fences_eval = two_fences_def demo_fence_def demo_attrs_def

lemmas detect_eval = detect_fence_overlaps_def detect_attempt_def get_db_connection_def
  upsert_overlap_def overlap_row_of_def same_pair_def fence_info_def Let_def

lemmas delete_eval = delete_fence_def get_db_connection_def clear_fence_cache_def Let_def

lemmas geometry_eval = validate_geometry_def geometry_acceptable_def wkt_of_geometry_def
  convert_geojson_to_wkt_def ring_wkt_def calculate_fence_area_def
  MIN_AREA_SQUARE_DEGREES_def

subsection \<open>Overlap rows and their key\<close>



















subsection \<open>Update and delete\<close>

text \<open>
  Claim C10. \<^verbatim>\<open>update_fence\<close> called with none of the updatable fields returns a failure
  and leaves the whole state as it was, whatever fence the id names: with the pool
  created the error is the one for "no field to update"; without it the earlier
  \<^verbatim>\<open>get_db_connection\<close> has already raised.
\<close>

theorem update_without_fields_fails:
  "update_fence env fence_id
     \<lparr>new_name = None, new_geometry = None, new_purpose = None, new_description = None,
      new_color = None, new_opacity = None, new_tags = None, new_config = None\<rparr> w
   = (Inl (if db_pool_ready w then NoFieldsToUpdate else PoolNotInitialised), w)"
  by (simp add: update_fence_def build_update_fields_def get_db_connection_def supplied_def)

lemma delete_missing:
  assumes "db_pool_ready w"
    and "\<forall>r\<in>set (electronic_fences (db w)). row_id r = fence_id \<longrightarrow> fence_status r = ''deleted''"
  shows "delete_fence fence_id w = (Inl FenceMissingOrDeleted, w)"
proof -
  have "filter (\<lambda>r. row_id r = fence_id \<and> fence_status r \<noteq> ''deleted'')
          (electronic_fences (db w)) = []"
    using assms(2) by (auto simp: filter_empty_conv)
  then show ?thesis using assms(1)
    by (simp add: delete_fence_def get_db_connection_def)
qed

lemma delete_active:
  assumes ready: "db_pool_ready w"
    and row: "r \<in> set (electronic_fences (db w))" "row_id r = fence_id"
      "fence_status r = ''active''"
  shows "\<exists>name w'. delete_fence fence_id w = (Inr (fence_id, name), w')
           \<and> r\<lparr>fence_status := ''deleted'', deleted_at := Some (now w)\<rparr>
                 \<in> set (electronic_fences (db w'))
           \<and> (\<forall>r'\<in>set (electronic_fences (db w')).
                 row_id r' = fence_id \<longrightarrow> fence_status r' = ''deleted'')
           \<and> (\<forall>ov\<in>set (fence_overlaps (db w')).
                 fence_id_1 ov \<noteq> fence_id \<and> fence_id_2 ov \<noteq> fence_id)
           \<and> fence_overlaps (db w') =
                filter (\<lambda>ov. fence_id_1 ov \<noteq> fence_id \<and> fence_id_2 ov \<noteq> fence_id)
                  (fence_overlaps (db w))"
proof -
  let ?m = "\<lambda>r. row_id r = fence_id \<and> fence_status r \<noteq> ''deleted''"
  have "r \<in> set (filter ?m (electronic_fences (db w)))" using row by simp
  then obtain x xs where f: "filter ?m (electronic_fences (db w)) = x # xs"
    by (cases "filter ?m (electronic_fences (db w))") auto
  have m: "?m r" using row by simp
  show ?thesis using ready f row m
    by (auto simp: delete_fence_def get_db_connection_def clear_fence_cache_def Let_def
        image_iff intro!: bexI[of _ r])
qed

text \<open>
  Claim C6. With the pool created: deleting a fence all of whose rows are in the deleted
  state (or that has no row) fails with the error "the fence does not exist or was
  deleted" and leaves the whole state as it was; deleting a fence with an active row
  succeeds, that row is afterwards in the deleted state with the current time as its
  deletion timestamp, no row of the fence is left in another state, and the overlap table
  is the old one without the rows that name the fence in either id column.
\<close>

theorem delete_fence_finality:
  assumes "db_pool_ready w"
  shows "((\<forall>r\<in>set (electronic_fences (db w)).
             row_id r = fence_id \<longrightarrow> fence_status r = ''deleted'')
          \<longrightarrow> delete_fence fence_id w = (Inl FenceMissingOrDeleted, w))
     \<and> (r \<in> set (electronic_fences (db w)) \<and> row_id r = fence_id \<and> fence_status r = ''active''
          \<longrightarrow> (\<exists>name w'. delete_fence fence_id w = (Inr (fence_id, name), w')
                 \<and> r\<lparr>fence_status := ''deleted'', deleted_at := Some (now w)\<rparr>
                      \<in> set (electronic_fences (db w'))
                 \<and> (\<forall>r'\<in>set (electronic_fences (db w')).
                      row_id r' = fence_id \<longrightarrow> fence_status r' = ''deleted'')
                 \<and> (\<forall>ov\<in>set (fence_overlaps (db w')).
                      fence_id_1 ov \<noteq> fence_id \<and> fence_id_2 ov \<noteq> fence_id)
                 \<and> fence_overlaps (db w') =
                      filter (\<lambda>ov. fence_id_1 ov \<noteq> fence_id \<and> fence_id_2 ov \<noteq> fence_id)
                        (fence_overlaps (db w))))"
  using delete_missing[OF assms] delete_active[OF assms] by blast

theorem delete_fence_finality_witness:
  "db_pool_ready demo_world
   \<and> delete_fence 2 demo_world = (Inl FenceMissingOrDeleted, demo_world)
   \<and> fst (delete_fence 1 demo_world) = Inr (1, ''depot'')
   \<and> fence_overlaps (db (snd (delete_fence 1 demo_world))) = [demo_overlap 3 4]
   \<and> map (\<lambda>r. (row_id r, fence_status r, deleted_at r))
        (electronic_fences (db (snd (delete_fence 1 demo_world))))
      = [(1, ''deleted'', Some 200), (2, ''deleted'', Some 50),
         (3, ''active'', None), (4, ''active'', None)]"
proof -
  have ready: "db_pool_ready demo_world" by (simp add: demo_world_def)
  have row: "demo_fence 1 ''depot'' ''active'' \<in> set (electronic_fences (db demo_world))"
    by (simp add: demo_world_def)
  show ?thesis
    using delete_fence_finality[OF ready, where fence_id = 2]
      delete_fence_finality[OF ready, where fence_id = 1
        and r = "demo_fence 1 ''depot'' ''active''"] row
    by (simp add: delete_eval demo_world_eval)
qed

subsection \<open>The caches across a mutation\<close>

lemma detect_fence_overlaps_caches:
  "detect_fence_overlaps env i w = (l, w')
     \<Longrightarrow> memory_cache w' = memory_cache w \<and> redis_client w' = redis_client w"
  by (auto simp: detect_fence_overlaps_def detect_attempt_def Let_def
      split: sum.splits prod.splits option.splits)

lemma detect_each_caches:
  "detect_each env ids n w = (cnt, w')
     \<Longrightarrow> memory_cache w' = memory_cache w \<and> redis_client w' = redis_client w"
proof (induction ids arbitrary: n w)
  case Nil
  then show ?case by simp
next
  case (Cons i ids)
  obtain l w1 where d: "detect_fence_overlaps env i w = (l, w1)" by fastforce
  have "memory_cache w1 = memory_cache w \<and> redis_client w1 = redis_client w"
    using detect_fence_overlaps_caches[OF d] .
  moreover have "detect_each env ids (n + length l) w1 = (cnt, w')"
    using Cons.prems d by simp
  ultimately show ?case using Cons.IH by simp
qed

text \<open>
  None of the five mutations touches either cache tier, on success or on failure:
  \<^verbatim>\<open>clear_fence_cache\<close> is all they call, and \<^verbatim>\<open>services.clear_cache\<close>, which would empty
  both tiers, is not called from fence\_services.py.
\<close>

lemma mutations_leave_caches:
  "memory_cache (snd (create_fence env name g a w)) = memory_cache w
   \<and> redis_client (snd (create_fence env name g a w)) = redis_client w
   \<and> memory_cache (snd (update_fence env i u w)) = memory_cache w
   \<and> redis_client (snd (update_fence env i u w)) = redis_client w
   \<and> memory_cache (snd (delete_fence i w)) = memory_cache w
   \<and> redis_client (snd (delete_fence i w)) = redis_client w
   \<and> memory_cache (snd (merge_fences env ids name operator w)) = memory_cache w
   \<and> redis_client (snd (merge_fences env ids name operator w)) = redis_client w
   \<and> memory_cache (snd (split_fence env i line operator w)) = memory_cache w
   \<and> redis_client (snd (split_fence env i line operator w)) = redis_client w"
proof -
  have c: "memory_cache (snd (create_fence env name g a w)) = memory_cache w
      \<and> redis_client (snd (create_fence env name g a w)) = redis_client w"
    by (auto simp: create_fence_def insert_fence_def clear_fence_cache_def Let_def
        split: sum.splits prod.splits dest: detect_fence_overlaps_caches)
  have u: "memory_cache (snd (update_fence env i u w)) = memory_cache w
      \<and> redis_client (snd (update_fence env i u w)) = redis_client w"
    by (auto simp: update_fence_def clear_fence_cache_def Let_def
        split: sum.splits prod.splits list.splits option.splits if_splits
        dest: detect_fence_overlaps_caches)
  have d: "memory_cache (snd (delete_fence i w)) = memory_cache w
      \<and> redis_client (snd (delete_fence i w)) = redis_client w"
    by (auto simp: delete_fence_def clear_fence_cache_def Let_def
        split: sum.splits list.splits)
  have m: "memory_cache (snd (merge_fences env ids name operator w)) = memory_cache w
      \<and> redis_client (snd (merge_fences env ids name operator w)) = redis_client w"
    by (auto simp: merge_fences_def clear_fence_cache_def Let_def
        split: sum.splits prod.splits option.splits dest: detect_fence_overlaps_caches)
  have s: "memory_cache (snd (split_fence env i line operator w)) = memory_cache w
      \<and> redis_client (snd (split_fence env i line operator w)) = redis_client w"
    by (auto simp: split_fence_def clear_fence_cache_def Let_def simp del: detect_each.simps
        split: sum.splits prod.splits option.splits list.splits dest: detect_each_caches)
  from c u d m s show ?thesis by blast
qed

text \<open>
  Claim C2 fails on the code. In the example world the delete of the active fence 1
  succeeds, and afterwards the entry of the local tier and the entry of the shared tier,
  both written before the delete, are still read back.
\<close>

theorem cache_survives_delete:
  "fst (delete_fence 1 demo_world) = Inr (1, ''depot'')
   \<and> fst (get_cache_value ''fence_statistics:0'' (snd (delete_fence 1 demo_world)))
       = Some ''statistics before the delete''
   \<and> fst (get_cache_value ''fence_list:0'' (snd (delete_fence 1 demo_world)))
       = Some ''fence list before the delete''"
  by (simp add: delete_eval demo_world_eval get_cache_value_def memory_cache_ttl_def redis_get_def
      text_truthy_def)

text \<open>What \<^verbatim>\<open>services.clear_cache\<close> would have done to the same two entries.\<close>

lemma clear_cache_empties_both_tiers:
  "memory_cache (clear_cache w) = []
   \<and> (redis_client (clear_cache w) = None \<or> redis_client (clear_cache w) = Some [])"
  by (simp add: clear_cache_def split: option.splits)

subsection \<open>The cutting line of a split\<close>

text \<open>
  A GeoJSON cutting line with fewer than two points is refused before the store is
  reached, and the state stays as it was.
\<close>

lemma split_short_geojson_line_refused:
  assumes "l_type d = Some ''LineString''"
    and "length (case l_coordinates d of None \<Rightarrow> [] | Some c \<Rightarrow> c) < 2"
  shows "split_fence env fence_id (LineGeoJson d) operator w = (Inl SplitLineTooShort, w)"
  using assms by (simp add: split_fence_def split_line_wkt_def Let_def)

text \<open>
  A cutting line given as well-known text is handed to the stored function as it is: its
  points are never counted.
\<close>

lemma split_wkt_line_unchecked:
  "split_line_wkt env (LineWkt s) = Inr s"
  by (simp add: split_line_wkt_def)

text \<open>
  Claim C7 fails on the code for a line given as well-known text. The text
  \<^verbatim>\<open>LINESTRING EMPTY\<close> has no point, yet in the example world, whose store accepts any
  line, the split goes through: the stored function is called, the store is written and
  the result is a success.
\<close>

theorem split_accepts_empty_wkt_line:
  "fst (split_fence demo_env 1 (LineWkt ''LINESTRING EMPTY'') None demo_world) =
     Inr \<lparr>original_fence_id = 1, new_fence_ids = [5, 6], parts_count = 2,
          split_overlaps_detected = True, split_overlaps_count = 6\<rparr>
   \<and> next_fence_id (db (snd (split_fence demo_env 1 (LineWkt ''LINESTRING EMPTY'') None
        demo_world))) = 7"
  by (simp add: split_fence_def split_line_wkt_def detect_eval demo_env_eval demo_world_eval
      clear_fence_cache_def)

subsection \<open>GeoJSON import\<close>

lemma import_feature_counts:
  "import_feature env operator fv c w = (c', w')
     \<Longrightarrow> n_imported c' + n_skipped c' + n_error c' = n_imported c + n_skipped c + n_error c + 1"
  by (auto simp: import_feature_def Let_def
      split: feature_value.splits if_splits option.splits prod.splits sum.splits
        properties_value.splits)

lemma import_loop_counts:
  "import_loop env operator fs c w = (c', w')
     \<Longrightarrow> n_imported c' + n_skipped c' + n_error c'
           = n_imported c + n_skipped c + n_error c + length fs"
proof (induction fs arbitrary: c w)
  case Nil
  then show ?case by simp
next
  case (Cons fv fs)
  obtain c1 w1 where step: "import_feature env operator fv c w = (c1, w1)" by fastforce
  with Cons.prems have rest: "import_loop env operator fs c1 w1 = (c', w')" by simp
  from Cons.IH[OF rest] import_feature_counts[OF step] show ?case by simp
qed

text \<open>The loop takes up the features after any feature where it left the one before.\<close>

lemma import_loop_append:
  "import_loop env operator (pre @ post) c w =
     (case import_loop env operator pre c w of
        (c1, w1) \<Rightarrow> import_loop env operator post c1 w1)"
  by (induction pre arbitrary: c w) (auto split: prod.splits)

lemma import_invalid_feature:
  assumes "f_type f = Some ''Feature''" and "f_geometry f = Some g"
    and "\<not> validate_geometry env g"
  shows "import_feature env operator (FeatureDict f) c w = (c\<lparr>n_error := n_error c + 1\<rparr>, w)"
  using assms by (simp add: import_feature_def)

lemma import_skipped_feature:
  assumes "f_type f \<noteq> Some ''Feature''"
  shows "import_feature env operator (FeatureDict f) c w = (c\<lparr>n_skipped := n_skipped c + 1\<rparr>, w)"
  using assms by (simp add: import_feature_def)

lemma import_failed_creation:
  assumes "f_type f = Some ''Feature''" and "f_geometry f = Some g"
    and "\<not> geometry_falsy (Some g)" and "validate_geometry env g"
    and "properties_of f = Some p"
    and "create_fence env (import_name p (n_imported c)) g (import_attrs p operator) w = (Inl e, w')"
  shows "import_feature env operator (FeatureDict f) c w =
           (c\<lparr>n_error := n_error c + 1, acc_results := acc_results c @ [Inl e]\<rparr>, w')"
  using assms by (simp add: import_feature_def)

lemma import_created:
  assumes "f_type f = Some ''Feature''" and "f_geometry f = Some g"
    and "\<not> geometry_falsy (Some g)" and "validate_geometry env g"
    and "properties_of f = Some p"
    and "create_fence env (import_name p (n_imported c)) g (import_attrs p operator) w
           = (Inr report, w')"
  shows "import_feature env operator (FeatureDict f) c w =
           (c\<lparr>n_imported := n_imported c + 1, acc_results := acc_results c @ [Inr report]\<rparr>, w')"
  using assms by (simp add: import_feature_def)

text \<open>
  Claim C8. For a FeatureCollection with a non-empty feature list the import returns a
  success whose counts add up to the number of features of the input: every feature is
  taken and moves exactly one of the three counters by one. A feature whose geometry fails
  validation moves the error counter only and leaves the state as it was; a feature whose
  creation fails moves the error counter only and appends the failure to the results; a
  feature whose creation succeeds moves the imported counter only; a dict that is no
  Feature moves the skipped counter only. A feature in the middle of the list does not end
  the loop: the features after it are imported from the counters and the state it left.
\<close>

theorem import_counts_add_up:
  assumes "c_type geojson_data = Some ''FeatureCollection''"
    and "c_features geojson_data = Some fs" and "fs \<noteq> []"
  shows "(\<exists>report w'. import_fences_geojson env geojson_data operator w = (Inr report, w')
            \<and> imported_count report + skipped_count report + error_count report
                = total_features report
            \<and> total_features report = length fs)
     \<and> (\<forall>fv c v c' v'. import_feature env operator fv c v = (c', v')
            \<longrightarrow> n_imported c' + n_skipped c' + n_error c'
                  = n_imported c + n_skipped c + n_error c + 1)
     \<and> (\<forall>f g c v. f_type f = Some ''Feature'' \<and> f_geometry f = Some g
                    \<and> \<not> validate_geometry env g
            \<longrightarrow> import_feature env operator (FeatureDict f) c v
                  = (c\<lparr>n_error := n_error c + 1\<rparr>, v))
     \<and> (\<forall>f g p c v e v'. f_type f = Some ''Feature'' \<and> f_geometry f = Some g
                    \<and> \<not> geometry_falsy (Some g) \<and> validate_geometry env g
                    \<and> properties_of f = Some p
                    \<and> create_fence env (import_name p (n_imported c)) g
                          (import_attrs p operator) v = (Inl e, v')
            \<longrightarrow> import_feature env operator (FeatureDict f) c v
                  = (c\<lparr>n_error := n_error c + 1, acc_results := acc_results c @ [Inl e]\<rparr>, v'))
     \<and> (\<forall>f g p c v report v'. f_type f = Some ''Feature'' \<and> f_geometry f = Some g
                    \<and> \<not> geometry_falsy (Some g) \<and> validate_geometry env g
                    \<and> properties_of f = Some p
                    \<and> create_fence env (import_name p (n_imported c)) g
                          (import_attrs p operator) v = (Inr report, v')
            \<longrightarrow> import_feature env operator (FeatureDict f) c v
                  = (c\<lparr>n_imported := n_imported c + 1,
                       acc_results := acc_results c @ [Inr report]\<rparr>, v'))
     \<and> (\<forall>f c v. f_type f \<noteq> Some ''Feature''
            \<longrightarrow> import_feature env operator (FeatureDict f) c v
                  = (c\<lparr>n_skipped := n_skipped c + 1\<rparr>, v))
     \<and> (\<forall>pre fv post c v. import_loop env operator (pre @ fv # post) c v =
            (case import_loop env operator pre c v of
               (c1, v1) \<Rightarrow>
                 (case import_feature env operator fv c1 v1 of
                    (c2, v2) \<Rightarrow> import_loop env operator post c2 v2)))"
proof -
  let ?c0 = "\<lparr>n_imported = 0, n_skipped = 0, n_error = 0, acc_results = []\<rparr>"
  obtain c w' where run: "import_loop env operator fs ?c0 w = (c, w')" by fastforce
  from import_loop_counts[OF run]
  have "n_imported c + n_skipped c + n_error c = length fs" by simp
  with run assms
  have total: "\<exists>report w'. import_fences_geojson env geojson_data operator w = (Inr report, w')
            \<and> imported_count report + skipped_count report + error_count report
                = total_features report
            \<and> total_features report = length fs"
    by (simp add: import_fences_geojson_def)
  have step: "\<forall>fv c v c' v'. import_feature env operator fv c v = (c', v')
            \<longrightarrow> n_imported c' + n_skipped c' + n_error c'
                  = n_imported c + n_skipped c + n_error c + 1"
    using import_feature_counts by blast
  have invalid: "\<forall>f g c v. f_type f = Some ''Feature'' \<and> f_geometry f = Some g
                    \<and> \<not> validate_geometry env g
            \<longrightarrow> import_feature env operator (FeatureDict f) c v
                  = (c\<lparr>n_error := n_error c + 1\<rparr>, v)"
    using import_invalid_feature by blast
  have failed: "\<forall>f g p c v e v'. f_type f = Some ''Feature'' \<and> f_geometry f = Some g
                    \<and> \<not> geometry_falsy (Some g) \<and> validate_geometry env g
                    \<and> properties_of f = Some p
                    \<and> create_fence env (import_name p (n_imported c)) g
                          (import_attrs p operator) v = (Inl e, v')
            \<longrightarrow> import_feature env operator (FeatureDict f) c v
                  = (c\<lparr>n_error := n_error c + 1, acc_results := acc_results c @ [Inl e]\<rparr>, v')"
    using import_failed_creation by blast
  have created: "\<forall>f g p c v report v'. f_type f = Some ''Feature'' \<and> f_geometry f = Some g
                    \<and> \<not> geometry_falsy (Some g) \<and> validate_geometry env g
                    \<and> properties_of f = Some p
                    \<and> create_fence env (import_name p (n_imported c)) g
                          (import_attrs p operator) v = (Inr report, v')
            \<longrightarrow> import_feature env operator (FeatureDict f) c v
                  = (c\<lparr>n_imported := n_imported c + 1,
                       acc_results := acc_results c @ [Inr report]\<rparr>, v')"
    using import_created by blast
  have skipped: "\<forall>f c v. f_type f \<noteq> Some ''Feature''
            \<longrightarrow> import_feature env operator (FeatureDict f) c v
                  = (c\<lparr>n_skipped := n_skipped c + 1\<rparr>, v)"
    using import_skipped_feature by blast
  have loop: "\<forall>pre fv post c v. import_loop env operator (pre @ fv # post) c v =
            (case import_loop env operator pre c v of
               (c1, v1) \<Rightarrow>
                 (case import_feature env operator fv c1 v1 of
                    (c2, v2) \<Rightarrow> import_loop env operator post c2 v2))"
    by (simp add: import_loop_append split: prod.splits)
  from total step invalid failed created skipped loop show ?thesis by blast
qed

lemmas import_eval = import_fences_geojson_def import_feature_def create_fence_def
  geometry_falsy_def insert_fence_def no_properties_def or_default_def properties_of_def
  import_name_def import_attrs_def dumps_if_any_def str_int_def str_nat.simps
  clear_fence_cache_def unit_square_def empty_polygon_def square_3d_def demo_feature_def

text \<open>
  Four features: a unit square, a polygon with an empty coordinate array (validation
  fails), a square with three-dimensional points (validation passes, the creation fails in
  the conversion), and a unit square again.
\<close>

theorem import_counts_add_up_witness:
  "(\<exists>w'. import_fences_geojson demo_env
            \<lparr>c_type = Some ''FeatureCollection'',
             c_features = Some [demo_feature unit_square, demo_feature empty_polygon,
                                demo_feature square_3d, demo_feature unit_square]\<rparr>
            None two_fences
          = (Inr \<lparr>imported_count = 2, skipped_count = 0, error_count = 2, total_features = 4,
                  results =
                    [Inr \<lparr>rep_fence_id = 3, rep_fence_name = ''imported_fence_1'',
                          rep_fence_area = Some 12392000000, overlaps_detected = True,
                          overlaps_count = 2\<rparr>,
                     Inl UnpackError,
                     Inr \<lparr>rep_fence_id = 4, rep_fence_name = ''imported_fence_2'',
                          rep_fence_area = Some 12392000000, overlaps_detected = True,
                          overlaps_count = 3\<rparr>]\<rparr>, w'))
   \<and> validate_geometry demo_env square_3d
   \<and> fst (create_fence demo_env ''imported_fence_2'' square_3d
            (import_attrs no_properties None) two_fences) = Inl UnpackError
   \<and> (2::nat) + 0 + 2 = 4"
  using import_counts_add_up[where geojson_data = "\<lparr>c_type = Some ''FeatureCollection'',
             c_features = Some [demo_feature unit_square, demo_feature empty_polygon,
                                demo_feature square_3d, demo_feature unit_square]\<rparr>"
      and fs = "[demo_feature unit_square, demo_feature empty_polygon,
                 demo_feature square_3d, demo_feature unit_square]"
      and env = demo_env and operator = None and w = two_fences]
  by (simp add: import_eval geometry_eval detect_eval demo_env_eval two_fences_eval)

text \<open>
  The specification's scenario: three features, the second with an empty coordinate
  array.
\<close>

lemma import_scenario:
  "fst (import_fences_geojson demo_env
            \<lparr>c_type = Some ''FeatureCollection'',
             c_features = Some [demo_feature unit_square, demo_feature empty_polygon,
                                demo_feature unit_square]\<rparr> None two_fences)
     = Inr \<lparr>imported_count = 2, skipped_count = 0, error_count = 1, total_features = 3,
            results =
              [Inr \<lparr>rep_fence_id = 3, rep_fence_name = ''imported_fence_1'',
                    rep_fence_area = Some 12392000000, overlaps_detected = True,
                    overlaps_count = 2\<rparr>,
               Inr \<lparr>rep_fence_id = 4, rep_fence_name = ''imported_fence_2'',
                    rep_fence_area = Some 12392000000, overlaps_detected = True,
                    overlaps_count = 3\<rparr>]\<rparr>"
  by (simp add: import_eval geometry_eval detect_eval demo_env_eval two_fences_eval)

subsection \<open>A detection that fails\<close>

lemma failed_detection_empty:
  "fst (detect_attempt env i v) = Inl e
     \<Longrightarrow> detect_fence_overlaps env i v = ([], snd (detect_attempt env i v))"
  by (cases "detect_attempt env i v") (simp add: detect_fence_overlaps_def)

lemma quiet_detection_empty:
  "db_pool_ready v \<Longrightarrow>
     detect_fence_overlaps (env\<lparr>detect_overlaps_sql := (\<lambda>s i. Inr ([], s))\<rparr>) i v = ([], v)"
  by (simp add: detect_fence_overlaps_def detect_attempt_def get_db_connection_def)

lemma geometry_field_supplied:
  "new_geometry u \<noteq> None \<Longrightarrow> build_update_fields env u = Inr fs \<Longrightarrow> fs \<noteq> []"
  by (auto simp: build_update_fields_def split: option.splits if_splits sum.splits)

text \<open>Replacing the detection function changes nothing the other helpers compute.\<close>

lemma point_wkt_quiet:
  "point_wkt (env\<lparr>detect_overlaps_sql := f\<rparr>) = point_wkt env"
proof
  fix p show "point_wkt (env\<lparr>detect_overlaps_sql := f\<rparr>) p = point_wkt env p"
    by (cases "(env, p)" rule: point_wkt.cases) simp_all
qed

lemma ring_wkt_quiet:
  "ring_wkt (env\<lparr>detect_overlaps_sql := f\<rparr>) = ring_wkt env"
  by (intro ext) (simp add: ring_wkt_def point_wkt_quiet)

lemma geometry_acceptable_quiet:
  "geometry_acceptable (env\<lparr>detect_overlaps_sql := f\<rparr>) = geometry_acceptable env"
  by (intro ext) (simp add: geometry_acceptable_def cong: option.case_cong)

lemma wkt_of_geometry_quiet:
  "wkt_of_geometry (env\<lparr>detect_overlaps_sql := f\<rparr>) g = wkt_of_geometry env g"
  unfolding wkt_of_geometry_def convert_geojson_to_wkt_def ring_wkt_quiet by (rule refl)

lemma validate_geometry_quiet:
  "validate_geometry (env\<lparr>detect_overlaps_sql := f\<rparr>) g = validate_geometry env g"
  by (simp add: validate_geometry_def geometry_acceptable_quiet
      cong: geometry_data.case_cong list.case_cong option.case_cong if_cong)

lemma build_update_fields_quiet:
  "build_update_fields (env\<lparr>detect_overlaps_sql := f\<rparr>) u = build_update_fields env u"
  by (simp add: build_update_fields_def validate_geometry_quiet wkt_of_geometry_quiet
      split: option.splits)

lemma assign_quiet:
  "assign (env\<lparr>detect_overlaps_sql := f\<rparr>) x r = assign env x r"
  by (cases x) simp_all

lemma update_active_fence_quiet:
  "update_active_fence (env\<lparr>detect_overlaps_sql := f\<rparr>) xs i s = update_active_fence env xs i s"
proof -
  have "assign (env\<lparr>detect_overlaps_sql := f\<rparr>) = assign env"
    by (intro ext) (rule assign_quiet)
  then show ?thesis by (simp add: update_active_fence_def)
qed

lemma create_fence_failed_detection:
  assumes "validate_geometry env g" and "wkt_of_geometry env g = Inr wkt"
    and "db_pool_ready w"
    and "insert_fence env name wkt
           (a\<lparr>fence_tags := dumps_if_any (fence_tags a),
              fence_config := dumps_if_any (fence_config a)\<rparr>) (db w) = (i, s)"
    and "fst (detect_attempt env i (w\<lparr>db := s\<rparr>)) = Inl e"
  shows "fst (create_fence env name g a w) =
           Inr \<lparr>rep_fence_id = i, rep_fence_name = name,
                rep_fence_area = Some (calculate_fence_area env wkt),
                overlaps_detected = False, overlaps_count = 0\<rparr>
         \<and> fst (create_fence (env\<lparr>detect_overlaps_sql := (\<lambda>s i. Inr ([], s))\<rparr>) name g a w) =
           fst (create_fence env name g a w)"
proof -
  let ?env = "env\<lparr>detect_overlaps_sql := (\<lambda>s i. Inr ([], s))\<rparr>"
  have one: "fst (create_fence env name g a w) =
           Inr \<lparr>rep_fence_id = i, rep_fence_name = name,
                rep_fence_area = Some (calculate_fence_area env wkt),
                overlaps_detected = False, overlaps_count = 0\<rparr>"
    using assms failed_detection_empty[OF assms(5)]
    by (simp add: create_fence_def get_db_connection_def Let_def)
  have ins: "insert_fence ?env name wkt
           (a\<lparr>fence_tags := dumps_if_any (fence_tags a),
              fence_config := dumps_if_any (fence_config a)\<rparr>) (db w) = (i, s)"
    using assms(4) by (auto simp: insert_fence_def)
  have area: "calculate_fence_area ?env wkt = calculate_fence_area env wkt"
    by (simp add: calculate_fence_area_def cong: option.case_cong)
  have ready: "db_pool_ready (w\<lparr>db := s\<rparr>)" using assms(3) by simp
  have two: "fst (create_fence ?env name g a w) =
           Inr \<lparr>rep_fence_id = i, rep_fence_name = name,
                rep_fence_area = Some (calculate_fence_area env wkt),
                overlaps_detected = False, overlaps_count = 0\<rparr>"
    using assms(1,2,3) ins area quiet_detection_empty[OF ready, of env i]
    by (simp add: create_fence_def get_db_connection_def Let_def validate_geometry_quiet
        wkt_of_geometry_quiet)
  from one two show ?thesis by simp
qed

lemma update_fence_failed_detection:
  assumes "db_pool_ready w" and "new_geometry u \<noteq> None"
    and "build_update_fields env u = Inr fs"
    and "update_active_fence env (fs @ [SetUpdatedAt (now w)]) i (db w) = (row # rows, s)"
    and "fst (detect_attempt env i (w\<lparr>db := s\<rparr>)) = Inl e"
  shows "fst (update_fence env i u w) =
           Inr \<lparr>rep_fence_id = i, rep_fence_name = fence_name row,
                rep_fence_area = fence_area row,
                overlaps_detected = False, overlaps_count = 0\<rparr>
         \<and> fst (update_fence (env\<lparr>detect_overlaps_sql := (\<lambda>s i. Inr ([], s))\<rparr>) i u w) =
           fst (update_fence env i u w)"
proof -
  let ?env = "env\<lparr>detect_overlaps_sql := (\<lambda>s i. Inr ([], s))\<rparr>"
  have ne: "fs \<noteq> []" using geometry_field_supplied[OF assms(2,3)] .
  have one: "fst (update_fence env i u w) =
           Inr \<lparr>rep_fence_id = i, rep_fence_name = fence_name row,
                rep_fence_area = fence_area row,
                overlaps_detected = False, overlaps_count = 0\<rparr>"
    using assms ne failed_detection_empty[OF assms(5)]
    by (simp add: update_fence_def get_db_connection_def)
  have ready: "db_pool_ready (w\<lparr>db := s\<rparr>)" using assms(1) by simp
  have two: "fst (update_fence ?env i u w) =
           Inr \<lparr>rep_fence_id = i, rep_fence_name = fence_name row,
                rep_fence_area = fence_area row,
                overlaps_detected = False, overlaps_count = 0\<rparr>"
    using assms(1-4) ne quiet_detection_empty[OF ready, of env i]
    by (simp add: update_fence_def get_db_connection_def build_update_fields_quiet
        update_active_fence_quiet)
  from one two show ?thesis by simp
qed

text \<open>
  Claim C9. When the \<^verbatim>\<open>try\<close> block of \<^verbatim>\<open>detect_fence_overlaps\<close> raises (the pool is
  missing, the stored function raises, or the table rejects a row), the function returns
  the empty list. A create whose geometry is valid and converts, with the pool created,
  and whose detection step fails on the store after the insert, returns a success with
  \<^verbatim>\<open>overlaps_detected\<close> false and \<^verbatim>\<open>overlaps_count\<close> 0, and so does an update that
  supplies a geometry, matches an active row, and whose detection step fails; in both
  cases the returned report is the one returned when the detection function finds no
  overlap at all.
\<close>

theorem failed_detection_reads_as_no_overlap:
  "(fst (detect_attempt env i v) = Inl e \<longrightarrow> fst (detect_fence_overlaps env i v) = [])
   \<and> (validate_geometry env g \<and> wkt_of_geometry env g = Inr wkt \<and> db_pool_ready w
        \<and> insert_fence env name wkt
             (a\<lparr>fence_tags := dumps_if_any (fence_tags a),
                fence_config := dumps_if_any (fence_config a)\<rparr>) (db w) = (j, s)
        \<and> fst (detect_attempt env j (w\<lparr>db := s\<rparr>)) = Inl e1
      \<longrightarrow> fst (create_fence env name g a w) =
            Inr \<lparr>rep_fence_id = j, rep_fence_name = name,
                 rep_fence_area = Some (calculate_fence_area env wkt),
                 overlaps_detected = False, overlaps_count = 0\<rparr>
          \<and> fst (create_fence (env\<lparr>detect_overlaps_sql := (\<lambda>s i. Inr ([], s))\<rparr>) name g a w) =
              fst (create_fence env name g a w))
   \<and> (db_pool_ready w \<and> new_geometry u \<noteq> None \<and> build_update_fields env u = Inr fs
        \<and> update_active_fence env (fs @ [SetUpdatedAt (now w)]) k (db w) = (row # rows, s')
        \<and> fst (detect_attempt env k (w\<lparr>db := s'\<rparr>)) = Inl e2
      \<longrightarrow> fst (update_fence env k u w) =
            Inr \<lparr>rep_fence_id = k, rep_fence_name = fence_name row,
                 rep_fence_area = fence_area row,
                 overlaps_detected = False, overlaps_count = 0\<rparr>
          \<and> fst (update_fence (env\<lparr>detect_overlaps_sql := (\<lambda>s i. Inr ([], s))\<rparr>) k u w) =
              fst (update_fence env k u w))"
proof (intro conjI impI)
  assume "fst (detect_attempt env i v) = Inl e"
  from failed_detection_empty[OF this] show "fst (detect_fence_overlaps env i v) = []"
    by simp
next
  assume h: "validate_geometry env g \<and> wkt_of_geometry env g = Inr wkt \<and> db_pool_ready w
        \<and> insert_fence env name wkt
             (a\<lparr>fence_tags := dumps_if_any (fence_tags a),
                fence_config := dumps_if_any (fence_config a)\<rparr>) (db w) = (j, s)
        \<and> fst (detect_attempt env j (w\<lparr>db := s\<rparr>)) = Inl e1"
  then have c: "fst (create_fence env name g a w) =
           Inr \<lparr>rep_fence_id = j, rep_fence_name = name,
                rep_fence_area = Some (calculate_fence_area env wkt),
                overlaps_detected = False, overlaps_count = 0\<rparr>
         \<and> fst (create_fence (env\<lparr>detect_overlaps_sql := (\<lambda>s i. Inr ([], s))\<rparr>) name g a w) =
           fst (create_fence env name g a w)"
    using create_fence_failed_detection[of env g wkt w name a j s e1] by blast
  from c show "fst (create_fence env name g a w) =
            Inr \<lparr>rep_fence_id = j, rep_fence_name = name,
                 rep_fence_area = Some (calculate_fence_area env wkt),
                 overlaps_detected = False, overlaps_count = 0\<rparr>" by blast
  from c show "fst (create_fence (env\<lparr>detect_overlaps_sql := (\<lambda>s i. Inr ([], s))\<rparr>) name g a w) =
              fst (create_fence env name g a w)" by blast
next
  assume h: "db_pool_ready w \<and> new_geometry u \<noteq> None \<and> build_update_fields env u = Inr fs
        \<and> update_active_fence env (fs @ [SetUpdatedAt (now w)]) k (db w) = (row # rows, s')
        \<and> fst (detect_attempt env k (w\<lparr>db := s'\<rparr>)) = Inl e2"
  then have c: "fst (update_fence env k u w) =
           Inr \<lparr>rep_fence_id = k, rep_fence_name = fence_name row,
                rep_fence_area = fence_area row,
                overlaps_detected = False, overlaps_count = 0\<rparr>
         \<and> fst (update_fence (env\<lparr>detect_overlaps_sql := (\<lambda>s i. Inr ([], s))\<rparr>) k u w) =
           fst (update_fence env k u w)"
    using update_fence_failed_detection[of w u env fs k row rows s' e2] by blast
  from c show "fst (update_fence env k u w) =
            Inr \<lparr>rep_fence_id = k, rep_fence_name = fence_name row,
                 rep_fence_area = fence_area row,
                 overlaps_detected = False, overlaps_count = 0\<rparr>" by blast
  from c show "fst (update_fence (env\<lparr>detect_overlaps_sql := (\<lambda>s i. Inr ([], s))\<rparr>) k u w) =
              fst (update_fence env k u w)" by blast
qed

text \<open>
  In the example world with a detection function that always raises, creating a third
  fence and moving fence 1 both report success without overlaps, although the fences
  overlap (the same calls with the working detection function report overlaps).
\<close>

theorem failed_detection_reads_as_no_overlap_witness:
  "fst (detect_fence_overlaps failing_env 3 two_fences) = []
   \<and> fst (create_fence failing_env ''C'' unit_square demo_attrs two_fences) =
       Inr \<lparr>rep_fence_id = 3, rep_fence_name = ''C'', rep_fence_area = Some 12392000000,
            overlaps_detected = False, overlaps_count = 0\<rparr>
   \<and> fst (create_fence demo_env ''C'' unit_square demo_attrs two_fences) =
       Inr \<lparr>rep_fence_id = 3, rep_fence_name = ''C'', rep_fence_area = Some 12392000000,
            overlaps_detected = True, overlaps_count = 2\<rparr>
   \<and> fst (update_fence failing_env 1 new_geometry_only two_fences) =
       Inr \<lparr>rep_fence_id = 1, rep_fence_name = ''A'', rep_fence_area = None,
            overlaps_detected = False, overlaps_count = 0\<rparr>"
  using failed_detection_reads_as_no_overlap[where env = failing_env and i = 3
      and v = two_fences and e = "StoreError ''detect_fence_overlaps''"
      and g = unit_square and wkt = "''POLYGON((0.0 0.0,0.0 1.0,1.0 1.0,1.0 0.0,0.0 0.0))''"
      and w = two_fences and name = "''C''" and a = demo_attrs and j = 3
      and s = "snd (insert_fence failing_env ''C''
                 ''POLYGON((0.0 0.0,0.0 1.0,1.0 1.0,1.0 0.0,0.0 0.0))'' demo_attrs (db two_fences))"
      and ?e1.0 = "StoreError ''detect_fence_overlaps''"
      and u = new_geometry_only
      and fs = "[SetGeometry ''POLYGON((0.0 0.0,0.0 1.0,1.0 1.0,1.0 0.0,0.0 0.0))'']"
      and k = 1
      and row = "hd (fst (update_active_fence failing_env
                 [SetGeometry ''POLYGON((0.0 0.0,0.0 1.0,1.0 1.0,1.0 0.0,0.0 0.0))'',
                  SetUpdatedAt 200] 1 (db two_fences)))"
      and rows = "[]"
      and s' = "snd (update_active_fence failing_env
                 [SetGeometry ''POLYGON((0.0 0.0,0.0 1.0,1.0 1.0,1.0 0.0,0.0 0.0))'',
                  SetUpdatedAt 200] 1 (db two_fences))"
      and ?e2.0 = "StoreError ''detect_fence_overlaps''"]
  by (simp add: failing_env_def new_geometry_only_def unit_square_def demo_env_eval
      two_fences_eval geometry_eval detect_eval create_fence_def update_fence_def
      build_update_fields_def update_active_fence_def insert_fence_def dumps_if_any_def
      supplied_def clear_fence_cache_def)

subsection \<open>Geometry validation\<close>







end
